theory Spec2Isabelle
  imports Main "HOL-Library.Word" "HOL-Library.Sublist"
begin

section \<open>Hex digests and the webhook signature verifier\<close>

text \<open>
  \<^verbatim>\<open>supabase/functions/webhooks/index.ts\<close>, \<^verbatim>\<open>verifyHMACSignature\<close> (and the same
  hex rendering in \<^verbatim>\<open>sha256Hex\<close> of the payments function):
  \<^verbatim>\<open>Array.from(new Uint8Array(sig)).map(b => b.toString(16).padStart(2, '0')).join('')\<close>.
  The digest itself comes from \<^verbatim>\<open>crypto.subtle\<close>, which is not code of the repository:
  it is a parameter of the model. \<^verbatim>\<open>None\<close> stands for a rejected promise, which the
  \<^verbatim>\<open>try/catch\<close> of the verifier turns into \<^verbatim>\<open>false\<close>.
\<close>

type_synonym byte = "8 word"

definition hexDigit :: "nat \<Rightarrow> char" where
  "hexDigit d = ''0123456789abcdef'' ! d"

fun toString16 :: "nat \<Rightarrow> string" where
  "toString16 n = (if n < 16 then [hexDigit n] else toString16 (n div 16) @ [hexDigit (n mod 16)])"

declare toString16.simps [simp del]

definition padStart :: "nat \<Rightarrow> char \<Rightarrow> string \<Rightarrow> string" where
  "padStart n c s = replicate (n - length s) c @ s"

definition hexOfBytes :: "byte list \<Rightarrow> string" where
  "hexOfBytes bs = concat (map (\<lambda>b. padStart 2 (CHR ''0'') (toString16 (unat b))) bs)"

text \<open>
  \<^verbatim>\<open>String.prototype.replace\<close> with a string pattern replaces the first occurrence only
  and leaves a string without the pattern unchanged.
\<close>

fun replaceFirst :: "'a list \<Rightarrow> 'a list \<Rightarrow> 'a list \<Rightarrow> 'a list" where
  "replaceFirst pat rep [] = (if pat = [] then rep else [])"
| "replaceFirst pat rep (c # cs) =
     (if prefix pat (c # cs) then rep @ drop (length pat) (c # cs)
      else c # replaceFirst pat rep cs)"

definition verifyHMACSignature ::
  "(string \<Rightarrow> string \<Rightarrow> byte list option) \<Rightarrow> string \<Rightarrow> string \<Rightarrow> string \<Rightarrow> bool" where
  "verifyHMACSignature hmac payload signature secret =
     (case hmac secret payload of
        None \<Rightarrow> False
      | Some computedSignature \<Rightarrow>
          (let computedHex = hexOfBytes computedSignature;
               expectedSignature = replaceFirst ''sha256='' '''' signature
           in computedHex = expectedSignature))"

text \<open>
  The claim's wording of the stripping, for comparison with \<^const>\<open>replaceFirst\<close>: the
  string \<open>r\<close> is \<open>s\<close> with its first occurrence of \<open>pat\<close> removed, or \<open>s\<close> itself when
  \<open>pat\<close> does not occur in it.
\<close>

definition firstOccurrenceRemoved :: "'a list \<Rightarrow> 'a list \<Rightarrow> 'a list \<Rightarrow> bool" where
  "firstOccurrenceRemoved pat s r =
     (if sublist pat s
      then (\<exists>pre post. s = pre @ pat @ post \<and> r = pre @ post \<and>
              (\<forall>pre' post'. s = pre' @ pat @ post' \<longrightarrow> length pre \<le> length pre'))
      else r = s)"

section \<open>JSON values, rows and the store\<close>

text \<open>
  The functions talk to a relational store through the Supabase client. The store is a
  record of tables, passed in and returned. A query whose \<^verbatim>\<open>error\<close> the source binds
  and inspects can fail, and the outcome is an input of the model (the \<^verbatim>\<open>env\<close>
  records below); a query whose error the source never looks at is applied as written.
  Tables with a key the handlers look rows up by (\<^verbatim>\<open>idempotency_keys.key\<close> PRIMARY KEY,
  \<^verbatim>\<open>webhook_events.event_id\<close> UNIQUE) are maps from that key; the others are lists of
  rows. Times are milliseconds since the epoch, one clock reading per invocation.
  The audit RPC \<^verbatim>\<open>create_audit_log\<close> only appends to a log no function reads; it is
  left out.
\<close>

datatype json = JNull | JBool bool | JNum int | JStr string | JObj "(string \<times> json) list"

type_synonym response = "nat \<times> json"

definition errorBody :: "string \<Rightarrow> json" where
  "errorBody msg = JObj [(''error'', JStr msg)]"

definition messageBody :: "string \<Rightarrow> json" where
  "messageBody msg = JObj [(''message'', JStr msg)]"

text \<open>Object spread \<^verbatim>\<open>{...a, ...b}\<close>: keys of \<open>a\<close> keep their place, \<open>b\<close> overrides and appends.\<close>

fun updateKey :: "string \<Rightarrow> json \<Rightarrow> (string \<times> json) list \<Rightarrow> (string \<times> json) list" where
  "updateKey k v [] = [(k, v)]"
| "updateKey k v ((k', v') # kvs) =
     (if k = k' then (k, v) # kvs else (k', v') # updateKey k v kvs)"

definition spread :: "(string \<times> json) list \<Rightarrow> (string \<times> json) list \<Rightarrow> (string \<times> json) list" where
  "spread a b = foldl (\<lambda>acc (k, v). updateKey k v acc) a b"

definition decDigit :: "nat \<Rightarrow> char" where
  "decDigit d = ''0123456789'' ! d"

fun toString10 :: "nat \<Rightarrow> string" where
  "toString10 n = (if n < 10 then [decDigit n] else toString10 (n div 10) @ [decDigit (n mod 10)])"

declare toString10.simps [simp del]

record webhook_payload =
  wp_event_type :: string
  wp_data :: "(string \<times> json) list"
  wp_timestamp :: string
  wp_event_id :: string

record webhook_event =
  ev_id :: string
  ev_event_id :: string
  ev_event_type :: string
  ev_source :: string
  ev_payload :: webhook_payload
  ev_signature :: "string option"
  ev_processed :: bool
  ev_processed_at :: "nat option"

record webhook_delivery =
  wd_id :: nat
  wd_event_type :: string
  wd_payload :: webhook_payload
  wd_signature :: "string option"
  wd_status :: string
  wd_attempts :: nat
  wd_error :: "string option"
  wd_next_attempt_at :: "nat option"
  wd_delivered_at :: "nat option"
  wd_created_at :: nat

record payment =
  p_id :: string
  p_amount_cents :: int
  p_currency :: string
  p_customer_email :: "string option"
  p_payment_method :: "string option"
  p_metadata :: "(string \<times> json) list"
  p_user_id :: "string option"
  p_external_payment_id :: "string option"
  p_idempotency_key :: string
  p_status :: string
  p_gateway_ref :: "string option"
  p_created_at :: nat

record transaction_row =
  t_payment_id :: string
  t_external_transaction_id :: string
  t_transaction_type :: string
  t_amount :: int
  t_currency :: string
  t_status :: string
  t_gateway_response :: json
  t_processed_at :: "nat option"

record idempotency_key =
  ik_key :: string
  ik_endpoint :: string
  ik_method :: string
  ik_request_hash :: string
  ik_response :: "json option"
  ik_status_code :: "nat option"
  ik_locked :: bool
  ik_last_used_at :: nat

record db =
  idempotency_keys :: "string \<rightharpoonup> idempotency_key"
  payments :: "payment list"
  transactions :: "transaction_row list"
  webhook_events :: "string \<rightharpoonup> webhook_event"
  webhook_deliveries :: "webhook_delivery list"

definition updateDeliveries ::
  "nat \<Rightarrow> (webhook_delivery \<Rightarrow> webhook_delivery) \<Rightarrow> db \<Rightarrow> db" where
  "updateDeliveries i f s =
     s\<lparr>webhook_deliveries := map (\<lambda>d. if wd_id d = i then f d else d) (webhook_deliveries s)\<rparr>"

definition deliveryById :: "db \<Rightarrow> nat \<Rightarrow> webhook_delivery option" where
  "deliveryById s i = find (\<lambda>d. wd_id d = i) (webhook_deliveries s)"

section \<open>Retry backoff\<close>

text \<open>
  \<^verbatim>\<open>scheduleRetry\<close>: \<^verbatim>\<open>Math.min(Math.pow(2, attempt) * 60, 3600)\<close> seconds, then
  \<^verbatim>\<open>new Date(Date.now() + nextAttemptDelay * 1000)\<close>; \<^verbatim>\<open>attempts\<close> is a
  non-negative integer column.
\<close>

definition nextAttemptDelay :: "nat \<Rightarrow> nat" where
  "nextAttemptDelay attempt = min (2 ^ attempt * 60) 3600"

definition nextAttemptAt :: "nat \<Rightarrow> nat \<Rightarrow> nat" where
  "nextAttemptAt now attempt = now + nextAttemptDelay attempt * 1000"

definition scheduleRetry :: "nat \<Rightarrow> nat \<Rightarrow> nat \<Rightarrow> db \<Rightarrow> db" where
  "scheduleRetry now deliveryId attempt s =
     updateDeliveries deliveryId
       (\<lambda>d. d\<lparr>wd_next_attempt_at := Some (nextAttemptAt now attempt),
               wd_attempts := attempt + 1\<rparr>) s"

section \<open>The webhooks function\<close>

text \<open>
  \<^verbatim>\<open>handlePaymentSucceeded\<close>, \<^verbatim>\<open>handlePaymentFailed\<close>, \<^verbatim>\<open>handlePaymentRefunded\<close>: an
  update of the payments with \<^verbatim>\<open>external_payment_id = data.payment_id\<close>, which throws
  \<^verbatim>\<open>Error('Failed to update payment status')\<close> when the store reports an error.
  The client writes the filter as the text \<^verbatim>\<open>eq.${value}\<close>, so \<^verbatim>\<open>data.payment_id\<close> is
  compared as JavaScript renders it in a template (integers are written in decimal, as
  JavaScript does below \<open>10^21\<close>). The update is sent as JSON: a key whose value is
  \<^verbatim>\<open>undefined\<close> is dropped and its column keeps its value; \<^verbatim>\<open>null\<close> clears the column; a
  string is stored as it is, any other value as its JSON text (\<^verbatim>\<open>JSON.stringify\<close>, a
  parameter).
\<close>

definition jsNumberText :: "int \<Rightarrow> string" where
  "jsNumberText n = (if n < 0 then ''-'' @ toString10 (nat (- n)) else toString10 (nat n))"

definition templateText :: "json option \<Rightarrow> string" where
  "templateText v =
     (case v of
        None \<Rightarrow> ''undefined''
      | Some JNull \<Rightarrow> ''null''
      | Some (JBool b) \<Rightarrow> (if b then ''true'' else ''false'')
      | Some (JNum n) \<Rightarrow> jsNumberText n
      | Some (JStr t) \<Rightarrow> t
      | Some (JObj kvs) \<Rightarrow> ''[object Object]'')"

definition columnText :: "(json \<Rightarrow> string) \<Rightarrow> json \<Rightarrow> string option" where
  "columnText stringify v =
     (case v of
        JNull \<Rightarrow> None
      | JStr t \<Rightarrow> Some t
      | _ \<Rightarrow> Some (stringify v))"

definition gatewayRefUpdate ::
  "(json \<Rightarrow> string) \<Rightarrow> (string \<times> json) list \<Rightarrow> payment \<Rightarrow> string option" where
  "gatewayRefUpdate stringify data p =
     (case map_of data ''gateway_id'' of
        None \<Rightarrow> p_gateway_ref p
      | Some v \<Rightarrow> columnText stringify v)"

definition updatePaymentsByExternalId :: "string \<Rightarrow> (payment \<Rightarrow> payment) \<Rightarrow> db \<Rightarrow> db" where
  "updatePaymentsByExternalId e f s =
     s\<lparr>payments := map (\<lambda>p. if p_external_payment_id p = Some e then f p else p) (payments s)\<rparr>"

definition handlePaymentSucceeded ::
  "(json \<Rightarrow> string) \<Rightarrow> bool \<Rightarrow> (string \<times> json) list \<Rightarrow> db \<Rightarrow> string + db" where
  "handlePaymentSucceeded stringify updateError data s =
     (if updateError then Inl ''Failed to update payment status''
      else Inr (updatePaymentsByExternalId (templateText (map_of data ''payment_id''))
                  (\<lambda>p. p\<lparr>p_status := ''succeeded'',
                          p_gateway_ref := gatewayRefUpdate stringify data p,
                          p_metadata := data\<rparr>) s))"

definition handlePaymentFailed ::
  "(json \<Rightarrow> string) \<Rightarrow> bool \<Rightarrow> (string \<times> json) list \<Rightarrow> db \<Rightarrow> string + db" where
  "handlePaymentFailed stringify updateError data s =
     (if updateError then Inl ''Failed to update payment status''
      else Inr (updatePaymentsByExternalId (templateText (map_of data ''payment_id''))
                  (\<lambda>p. p\<lparr>p_status := ''failed'',
                          p_gateway_ref := gatewayRefUpdate stringify data p,
                          p_metadata := data\<rparr>) s))"

definition handlePaymentRefunded :: "bool \<Rightarrow> (string \<times> json) list \<Rightarrow> db \<Rightarrow> string + db" where
  "handlePaymentRefunded updateError data s =
     (if updateError then Inl ''Failed to update payment status''
      else Inr (updatePaymentsByExternalId (templateText (map_of data ''payment_id''))
                  (\<lambda>p. p\<lparr>p_status := ''refunded'', p_metadata := data\<rparr>) s))"

definition processWebhookEvent ::
  "(json \<Rightarrow> string) \<Rightarrow> bool \<Rightarrow> webhook_payload \<Rightarrow> db \<Rightarrow> string + db" where
  "processWebhookEvent stringify updateError eventData s =
     (if wp_event_type eventData = ''payment.succeeded''
        then handlePaymentSucceeded stringify updateError (wp_data eventData) s
      else if wp_event_type eventData = ''payment.failed''
        then handlePaymentFailed stringify updateError (wp_data eventData) s
      else if wp_event_type eventData = ''payment.refunded''
        then handlePaymentRefunded updateError (wp_data eventData) s
      else Inr s)"

record wh_request =
  wr_method :: string
  wr_signature :: "string option"
  wr_body :: string

text \<open>
  What the invocation finds outside the store: the configured secret, the HMAC
  primitive, \<^verbatim>\<open>JSON.parse\<close> (\<open>None\<close> when it throws, or when it gives \<^verbatim>\<open>null\<close>, whose
  \<^verbatim>\<open>event_id\<close> cannot be read: both end in the outer \<^verbatim>\<open>catch\<close>), \<^verbatim>\<open>JSON.stringify\<close>,
  the outcome of the two inserts (\<open>None\<close> for an error, else the id of the new row),
  whether the payment update reports an error, and the clock.
\<close>

record wh_env =
  we_secret :: "string option"
  we_hmac :: "string \<Rightarrow> string \<Rightarrow> byte list option"
  we_parse :: "string \<Rightarrow> webhook_payload option"
  we_stringify :: "json \<Rightarrow> string"
  we_eventInsert :: "string option"
  we_deliveryInsert :: "nat option"
  we_updateError :: bool
  we_now :: nat

definition truthy :: "string option \<Rightarrow> bool" where
  "truthy v = (case v of None \<Rightarrow> False | Some t \<Rightarrow> t \<noteq> [])"

definition markProcessed :: "nat \<Rightarrow> string \<Rightarrow> db \<Rightarrow> db" where
  "markProcessed now i s =
     s\<lparr>webhook_events :=
         (\<lambda>k. map_option
                 (\<lambda>e. if ev_id e = i then e\<lparr>ev_processed := True, ev_processed_at := Some now\<rparr> else e)
                 (webhook_events s k))\<rparr>"

definition onProcessingError :: "nat \<Rightarrow> string \<Rightarrow> webhook_delivery option \<Rightarrow> db \<Rightarrow> db" where
  "onProcessingError now message delivery s =
     (case delivery of
        None \<Rightarrow> s
      | Some d \<Rightarrow>
          if wd_attempts d < 5
          then scheduleRetry now (wd_id d) (wd_attempts d)
                 (updateDeliveries (wd_id d)
                    (\<lambda>r. r\<lparr>wd_status := ''failed'', wd_error := Some message\<rparr>) s)
          else updateDeliveries (wd_id d)
                 (\<lambda>r. r\<lparr>wd_status := ''abandoned'', wd_error := Some message\<rparr>) s)"

text \<open>
  The handler from \<^verbatim>\<open>// Store webhook event\<close> on, reached when the event id is new:
  the two inserts, the processing inside \<^verbatim>\<open>try\<close>, and the \<^verbatim>\<open>catch\<close> that records
  the failure.
\<close>

definition newWebhookEvent :: "string \<Rightarrow> string \<Rightarrow> webhook_payload \<Rightarrow> webhook_event" where
  "newWebhookEvent newId signature webhookData =
     \<lparr>ev_id = newId, ev_event_id = wp_event_id webhookData,
      ev_event_type = wp_event_type webhookData, ev_source = ''payment_gateway'',
      ev_payload = webhookData, ev_signature = Some signature, ev_processed = False,
      ev_processed_at = None\<rparr>"

definition newDelivery :: "nat \<Rightarrow> nat \<Rightarrow> string \<Rightarrow> webhook_payload \<Rightarrow> webhook_delivery" where
  "newDelivery i now signature webhookData =
     \<lparr>wd_id = i, wd_event_type = wp_event_type webhookData, wd_payload = webhookData,
      wd_signature = Some signature, wd_status = ''processing'', wd_attempts = 1,
      wd_error = None, wd_next_attempt_at = None, wd_delivered_at = None,
      wd_created_at = now\<rparr>"

definition insertEvent :: "webhook_event \<Rightarrow> db \<Rightarrow> db" where
  "insertEvent e s = s\<lparr>webhook_events := (webhook_events s)(ev_event_id e \<mapsto> e)\<rparr>"

definition insertDelivery :: "webhook_delivery option \<Rightarrow> db \<Rightarrow> db" where
  "insertDelivery delivery s =
     (case delivery of
        None \<Rightarrow> s
      | Some d \<Rightarrow> s\<lparr>webhook_deliveries := webhook_deliveries s @ [d]\<rparr>)"

definition onProcessed :: "nat \<Rightarrow> webhook_event \<Rightarrow> webhook_delivery option \<Rightarrow> db \<Rightarrow> db" where
  "onProcessed now webhookEvent delivery s =
     (let s1 = markProcessed now (ev_id webhookEvent) s
      in case delivery of
           None \<Rightarrow> s1
         | Some d \<Rightarrow>
             updateDeliveries (wd_id d)
               (\<lambda>r. r\<lparr>wd_status := ''delivered'', wd_delivered_at := Some now\<rparr>) s1)"

definition storeAndProcess :: "wh_env \<Rightarrow> string \<Rightarrow> webhook_payload \<Rightarrow> db \<Rightarrow> response \<times> db" where
  "storeAndProcess env signature webhookData s =
     (case we_eventInsert env of
        None \<Rightarrow> ((500, errorBody ''Failed to store event''), s)
      | Some newId \<Rightarrow>
          let webhookEvent = newWebhookEvent newId signature webhookData;
              s1 = insertEvent webhookEvent s;
              delivery = map_option (\<lambda>i. newDelivery i (we_now env) signature webhookData)
                           (we_deliveryInsert env);
              s2 = insertDelivery delivery s1
          in (case processWebhookEvent (we_stringify env) (we_updateError env) webhookData s2 of
                Inr s3 \<Rightarrow>
                  ((200, messageBody ''Webhook processed successfully''),
                   onProcessed (we_now env) webhookEvent delivery s3)
              | Inl message \<Rightarrow>
                  ((500, errorBody ''Processing failed, will retry''),
                   onProcessingError (we_now env) message delivery s2)))"

definition webhooksHandler :: "wh_env \<Rightarrow> wh_request \<Rightarrow> db \<Rightarrow> response \<times> db" where
  "webhooksHandler env req s =
     (if wr_method req = ''OPTIONS'' then ((200, JNull), s)
      else if wr_method req \<noteq> ''POST'' then ((405, errorBody ''Method not allowed''), s)
      else if \<not> truthy (wr_signature req) \<or> \<not> truthy (we_secret env)
        then ((400, errorBody ''Missing signature or webhook secret''), s)
      else
        let signature = the (wr_signature req);
            payload = wr_body req
        in if \<not> verifyHMACSignature (we_hmac env) payload signature (the (we_secret env))
           then ((401, errorBody ''Invalid signature''), s)
           else case we_parse env payload of
             None \<Rightarrow> ((500, errorBody ''Internal server error''), s)
           | Some webhookData \<Rightarrow>
               (case webhook_events s (wp_event_id webhookData) of
                  Some existingEvent \<Rightarrow> ((200, messageBody ''Event already processed''), s)
                | None \<Rightarrow> storeAndProcess env signature webhookData s))"

section \<open>The retry-webhooks function\<close>

text \<open>
  The outcome of \<^verbatim>\<open>fetch\<close> in \<^verbatim>\<open>retryFailedWebhook\<close>: no \<^verbatim>\<open>WEBHOOK_URL\<close> configured (no
  request is sent), a response (\<^verbatim>\<open>response.ok\<close>, its status and text), or an exception
  with its message.
\<close>

datatype fetch_result = NoWebhookUrl | Responded bool nat string | FetchThrew string

definition retryFailedWebhook :: "nat \<Rightarrow> fetch_result \<Rightarrow> webhook_delivery \<Rightarrow> db \<Rightarrow> bool \<times> db" where
  "retryFailedWebhook now outcome delivery s =
     (case outcome of
        NoWebhookUrl \<Rightarrow> (False, s)
      | Responded ok status errorText \<Rightarrow>
          if ok
          then (True, updateDeliveries (wd_id delivery)
                        (\<lambda>r. r\<lparr>wd_status := ''delivered'', wd_delivered_at := Some now,
                                wd_error := None\<rparr>) s)
          else (False, updateDeliveries (wd_id delivery)
                         (\<lambda>r. r\<lparr>wd_status := ''failed'',
                                 wd_error := Some (''HTTP '' @ toString10 status @ '': '' @ errorText),
                                 wd_attempts := wd_attempts delivery + 1\<rparr>) s)
      | FetchThrew message \<Rightarrow>
          (False, updateDeliveries (wd_id delivery)
                    (\<lambda>r. r\<lparr>wd_status := ''failed'', wd_error := Some message,
                            wd_attempts := wd_attempts delivery + 1\<rparr>) s))"

definition maxRetries :: nat where
  "maxRetries = 5"

definition scheduleNextRetry :: "nat \<Rightarrow> webhook_delivery \<Rightarrow> db \<Rightarrow> db" where
  "scheduleNextRetry now delivery s =
     (let nextAttempt = wd_attempts delivery + 1
      in if nextAttempt \<ge> maxRetries
         then updateDeliveries (wd_id delivery)
                (\<lambda>r. r\<lparr>wd_status := ''abandoned'',
                        wd_error := Some (''Maximum retry attempts ('' @ toString10 maxRetries
                                          @ '') exceeded'')\<rparr>) s
         else updateDeliveries (wd_id delivery)
                (\<lambda>r. r\<lparr>wd_next_attempt_at := Some (nextAttemptAt now nextAttempt),
                        wd_attempts := nextAttempt\<rparr>) s)"

text \<open>
  The sweep's query: \<^verbatim>\<open>.eq('status', 'failed').lte('next_attempt_at', now)\<close>, ordered by
  \<^verbatim>\<open>created_at\<close> ascending, at most 50 rows. A null \<^verbatim>\<open>next_attempt_at\<close> does not pass the
  comparison.
\<close>

definition dueDeliveries :: "nat \<Rightarrow> db \<Rightarrow> webhook_delivery list" where
  "dueDeliveries now s =
     take 50 (sort_key wd_created_at
       (filter (\<lambda>d. wd_status d = ''failed'' \<and>
                     (case wd_next_attempt_at d of None \<Rightarrow> False | Some t \<Rightarrow> t \<le> now))
          (webhook_deliveries s)))"

text \<open>The body of the sweep's loop for one delivery: the retry, then the rescheduling when it failed.\<close>

definition retryDelivery :: "nat \<Rightarrow> fetch_result \<Rightarrow> webhook_delivery \<Rightarrow> db \<Rightarrow> bool \<times> db" where
  "retryDelivery now outcome delivery s =
     (case retryFailedWebhook now outcome delivery s of
        (True, s1) \<Rightarrow> (True, s1)
      | (False, s1) \<Rightarrow> (False, scheduleNextRetry now delivery s1))"

text \<open>
  The error text a failed retry stores: \<open>None\<close> when the retry did not fail with a
  request sent (success, or no destination configured).
\<close>

definition failureText :: "fetch_result \<Rightarrow> string option" where
  "failureText outcome =
     (case outcome of
        NoWebhookUrl \<Rightarrow> None
      | Responded ok status errorText \<Rightarrow>
          if ok then None else Some (''HTTP '' @ toString10 status @ '': '' @ errorText)
      | FetchThrew message \<Rightarrow> Some message)"

section \<open>The payments function\<close>

text \<open>
  \<^verbatim>\<open>supabase/functions/payments/index.ts\<close>. The body is what \<^verbatim>\<open>req.json()\<close> gives: a
  rejected promise, \<^verbatim>\<open>null\<close> (reading \<^verbatim>\<open>amount_cents\<close> of \<^verbatim>\<open>null\<close> throws, and the outer
  \<^verbatim>\<open>catch\<close> answers 500), or another value, read through its properties (a value that is
  not an object has none of them). A byte-identical body parses to the same value.
  \<^verbatim>\<open>amount_cents\<close> is \<open>None\<close> when absent and an integer when present; a body whose
  \<^verbatim>\<open>amount_cents\<close> is a fraction or not a number is outside the model.
\<close>

record payment_request =
  pr_amount_cents :: "int option"
  pr_currency :: "string option"
  pr_customer_email :: "string option"
  pr_payment_method :: "string option"
  pr_metadata :: "(string \<times> json) list option"
  pr_user_id :: "string option"

datatype json_body = InvalidJson | JsonNull | JsonValue payment_request

record pay_request =
  rq_method :: string
  rq_idempotency_key :: "string option"
  rq_body :: json_body

text \<open>
  What an invocation finds outside the ledger logic: the SHA-256 primitive and
  \<^verbatim>\<open>JSON.stringify\<close>; the errors the source inspects (\<^verbatim>\<open>keySelectErr\<close>,
  \<^verbatim>\<open>lockError\<close>, \<^verbatim>\<open>paymentError\<close> with its optional message or else the id and
  \<^verbatim>\<open>created_at\<close> of the new row, \<^verbatim>\<open>updateError\<close>, \<^verbatim>\<open>txnError\<close>); whether the store
  rejects the update that releases the key, whose result the source discards; the clock
  and the two random draws; and the fee \<^verbatim>\<open>Math.floor(amount_cents * 0.029) + 30\<close>, computed
  in double precision and therefore taken as given.

  The audit call is \<^verbatim>\<open>await supabase.rpc(...).catch(...)\<close>. The client the function
  imports (supabase-js 2.39.3) returns from \<^verbatim>\<open>rpc\<close> a builder that has \<^verbatim>\<open>then\<close> and no
  \<^verbatim>\<open>catch\<close>, so the call throws a \<^verbatim>\<open>TypeError\<close> on every path that reaches it, with the
  message \<open>auditTypeError\<close>. \<^verbatim>\<open>pe_auditThrows\<close> is the message of what the call throws,
  \<open>None\<close> for a client whose builder has \<^verbatim>\<open>catch\<close>; statements over every environment
  hold for both.
\<close>

record pay_env =
  pe_sha256 :: "string \<Rightarrow> byte list"
  pe_stringify :: "payment_request \<Rightarrow> string"
  pe_keySelectErr :: bool
  pe_lockError :: bool
  pe_now :: nat
  pe_random :: string
  pe_paymentInsert :: "string option + (string \<times> nat)"
  pe_gatewaySucceeds :: bool
  pe_processingFee :: "int \<Rightarrow> int"
  pe_updateError :: bool
  pe_txnError :: bool
  pe_auditThrows :: "string option"
  pe_releaseError :: bool

definition auditTypeError :: string where
  "auditTypeError = ''supabase.rpc(...).catch is not a function''"

definition sha256Hex :: "(string \<Rightarrow> byte list) \<Rightarrow> string \<Rightarrow> string" where
  "sha256Hex sha input = hexOfBytes (sha input)"

definition requestHashOf :: "pay_env \<Rightarrow> payment_request \<Rightarrow> string" where
  "requestHashOf env requestBody = sha256Hex (pe_sha256 env) (pe_stringify env requestBody)"

text \<open>\<^verbatim>\<open>!requestBody.amount_cents || requestBody.amount_cents <= 0\<close>\<close>

definition invalidAmount :: "payment_request \<Rightarrow> bool" where
  "invalidAmount requestBody =
     (case pr_amount_cents requestBody of
        None \<Rightarrow> True
      | Some a \<Rightarrow> a = 0 \<or> a \<le> 0)"

fun jsonTruthy :: "json \<Rightarrow> bool" where
  "jsonTruthy JNull = False"
| "jsonTruthy (JBool b) = b"
| "jsonTruthy (JNum n) = (n \<noteq> 0)"
| "jsonTruthy (JStr t) = (t \<noteq> [])"
| "jsonTruthy (JObj kvs) = True"

definition conflictBody :: json where
  "conflictBody = JObj [(''error'', JStr ''Idempotency key conflict''),
                        (''message'', JStr ''Key used with different request body'')]"

text \<open>The \<^verbatim>\<open>if (existingKey) { ... }\<close> block: the response it returns, or \<open>None\<close> when it falls through.\<close>

definition checkExisting :: "idempotency_key option \<Rightarrow> string \<Rightarrow> response option" where
  "checkExisting existingKey requestHash =
     (case existingKey of
        None \<Rightarrow> None
      | Some k \<Rightarrow>
          if ik_request_hash k \<noteq> [] \<and> ik_request_hash k \<noteq> requestHash
            then Some (409, conflictBody)
          else if ik_locked k
            then Some (409, errorBody ''Request is being processed'')
          else (case ik_response k of
                  Some r \<Rightarrow>
                    if jsonTruthy r
                    then Some (case ik_status_code k of Some c \<Rightarrow> c | None \<Rightarrow> 200, r)
                    else None
                | None \<Rightarrow> None))"

text \<open>
  The handler up to the upsert. For \<^verbatim>\<open>OPTIONS\<close> it evaluates
  \<^verbatim>\<open>new Response("ok", { status: 204 })\<close>, which throws (a 204 response cannot have a
  body) outside every \<^verbatim>\<open>try\<close>: the handler throws. Otherwise it has returned a
  response, or it goes on to lock the key with the request hash. A read error of the
  ledger is logged and the handler goes on as if the key had no record.
\<close>

datatype before_lock = Throws | Return response | Proceed string payment_request string

definition beforeLock :: "pay_env \<Rightarrow> pay_request \<Rightarrow> db \<Rightarrow> before_lock" where
  "beforeLock env req s =
     (if rq_method req = ''OPTIONS'' then Throws
      else if rq_method req \<noteq> ''POST'' then Return (405, errorBody ''Method not allowed'')
      else if \<not> truthy (rq_idempotency_key req)
        then Return (400, errorBody ''Idempotency-Key header is required'')
      else case rq_body req of
        InvalidJson \<Rightarrow> Return (400, errorBody ''Invalid JSON body'')
      | JsonNull \<Rightarrow> Return (500, errorBody ''Internal server error'')
      | JsonValue requestBody \<Rightarrow>
          if invalidAmount requestBody then Return (400, errorBody ''Invalid amount'')
          else
            let idempotencyKey = the (rq_idempotency_key req);
                requestHash = requestHashOf env requestBody;
                existingKey = (if pe_keySelectErr env then None
                               else idempotency_keys s idempotencyKey)
            in (case checkExisting existingKey requestHash of
                  Some r \<Rightarrow> Return r
                | None \<Rightarrow> Proceed idempotencyKey requestBody requestHash))"

text \<open>
  The upsert sets the listed columns; on an existing row the columns it does not list
  (\<^verbatim>\<open>response\<close>, \<^verbatim>\<open>status_code\<close>) keep their values.
\<close>

definition lockKey :: "nat \<Rightarrow> string \<Rightarrow> string \<Rightarrow> db \<Rightarrow> db" where
  "lockKey now idempotencyKey requestHash s =
     s\<lparr>idempotency_keys :=
         (idempotency_keys s)(idempotencyKey \<mapsto>
            (case idempotency_keys s idempotencyKey of
               None \<Rightarrow>
                 \<lparr>ik_key = idempotencyKey, ik_endpoint = ''/payments'', ik_method = ''POST'',
                  ik_request_hash = requestHash, ik_response = None, ik_status_code = None,
                  ik_locked = True, ik_last_used_at = now\<rparr>
             | Some k \<Rightarrow>
                 k\<lparr>ik_endpoint := ''/payments'', ik_method := ''POST'',
                   ik_request_hash := requestHash, ik_locked := True,
                   ik_last_used_at := now\<rparr>))\<rparr>"

text \<open>
  \<^verbatim>\<open>.update({ response, status_code, locked: false }).eq("key", idempotencyKey)\<close>, as the
  store applies it (\<open>releaseKey\<close>) and as the handler issues it (\<open>release\<close>): the
  handler does not look at the result, so a rejected update leaves the row as it was
  and the handler goes on.
\<close>

definition releaseKey :: "string \<Rightarrow> json \<Rightarrow> nat \<Rightarrow> db \<Rightarrow> db" where
  "releaseKey idempotencyKey responseBody statusCode s =
     s\<lparr>idempotency_keys :=
         (\<lambda>k. if k = idempotencyKey
              then map_option
                     (\<lambda>r. r\<lparr>ik_response := Some responseBody, ik_status_code := Some statusCode,
                             ik_locked := False\<rparr>)
                     (idempotency_keys s k)
              else idempotency_keys s k)\<rparr>"

definition release :: "pay_env \<Rightarrow> string \<Rightarrow> json \<Rightarrow> nat \<Rightarrow> db \<Rightarrow> db" where
  "release env idempotencyKey responseBody statusCode s =
     (if pe_releaseError env then s else releaseKey idempotencyKey responseBody statusCode s)"

text \<open>
  The writes the handler issues on \<^verbatim>\<open>idempotency_keys\<close>, in order, whether or not the
  store accepts them: the handler returns them beside its response and the store.
\<close>

datatype ledger_call = Upsert string string | Release string json nat

definition currencyOf :: "payment_request \<Rightarrow> string" where
  "currencyOf requestBody = (case pr_currency requestBody of Some c \<Rightarrow> c | None \<Rightarrow> ''USD'')"

definition metadataOf :: "payment_request \<Rightarrow> (string \<times> json) list" where
  "metadataOf requestBody = (case pr_metadata requestBody of Some m \<Rightarrow> m | None \<Rightarrow> [])"

definition gatewayStatus :: "pay_env \<Rightarrow> string" where
  "gatewayStatus env = (if pe_gatewaySucceeds env then ''succeeded'' else ''failed'')"

definition gatewayResponse :: "pay_env \<Rightarrow> payment_request \<Rightarrow> json" where
  "gatewayResponse env requestBody =
     JObj [(''gateway_id'', JStr (''gw_'' @ toString10 (pe_now env))),
           (''status'', JStr (gatewayStatus env)),
           (''processing_fee'', JNum (pe_processingFee env (the (pr_amount_cents requestBody))))]"

text \<open>The \<^verbatim>\<open>catch\<close> of the inner \<^verbatim>\<open>try\<close>: it issues the release with the error response.\<close>

definition onCreateError ::
  "pay_env \<Rightarrow> string \<Rightarrow> string \<Rightarrow> db \<Rightarrow> response \<times> db \<times> ledger_call list" where
  "onCreateError env idempotencyKey message s =
     ((400, errorBody message),
      release env idempotencyKey (errorBody message) 400 s,
      [Release idempotencyKey (errorBody message) 400])"

definition externalPaymentIdOf :: "pay_env \<Rightarrow> string" where
  "externalPaymentIdOf env = ''pay_'' @ toString10 (pe_now env) @ ''_'' @ pe_random env"

definition newPayment :: "pay_env \<Rightarrow> string \<Rightarrow> payment_request \<Rightarrow> string \<Rightarrow> nat \<Rightarrow> payment" where
  "newPayment env idempotencyKey requestBody newId createdAt =
     \<lparr>p_id = newId, p_amount_cents = the (pr_amount_cents requestBody),
      p_currency = currencyOf requestBody,
      p_customer_email = pr_customer_email requestBody,
      p_payment_method = pr_payment_method requestBody,
      p_metadata = metadataOf requestBody, p_user_id = pr_user_id requestBody,
      p_external_payment_id = Some (externalPaymentIdOf env),
      p_idempotency_key = idempotencyKey, p_status = ''pending'',
      p_gateway_ref = None, p_created_at = createdAt\<rparr>"

definition updateWithGatewayResult :: "pay_env \<Rightarrow> payment_request \<Rightarrow> payment \<Rightarrow> db \<Rightarrow> db" where
  "updateWithGatewayResult env requestBody payment s =
     (if pe_updateError env then s
      else s\<lparr>payments :=
             map (\<lambda>p. if p_id p = p_id payment
                       then p\<lparr>p_status := gatewayStatus env,
                              p_gateway_ref := Some (''gw_'' @ toString10 (pe_now env)),
                              p_metadata :=
                                spread (spread (p_metadata payment) (metadataOf requestBody))
                                  [(''gateway_response'', gatewayResponse env requestBody)]\<rparr>
                       else p) (payments s)\<rparr>)"

definition recordTransaction :: "pay_env \<Rightarrow> payment_request \<Rightarrow> payment \<Rightarrow> db \<Rightarrow> db" where
  "recordTransaction env requestBody payment s =
     (if pe_txnError env then s
      else s\<lparr>transactions := transactions s @
             [\<lparr>t_payment_id = p_id payment,
               t_external_transaction_id = ''gw_'' @ toString10 (pe_now env),
               t_transaction_type = ''payment'',
               t_amount = the (pr_amount_cents requestBody),
               t_currency = currencyOf requestBody,
               t_status = gatewayStatus env,
               t_gateway_response = gatewayResponse env requestBody,
               t_processed_at = (if pe_gatewaySucceeds env then Some (pe_now env) else None)\<rparr>]\<rparr>)"

definition responseBodyOf :: "pay_env \<Rightarrow> payment_request \<Rightarrow> payment \<Rightarrow> json" where
  "responseBodyOf env requestBody payment =
     JObj [(''id'', JStr (p_id payment)),
           (''external_payment_id'', JStr (externalPaymentIdOf env)),
           (''status'', JStr (gatewayStatus env)),
           (''amount_cents'', JNum (the (pr_amount_cents requestBody))),
           (''currency'', JStr (currencyOf requestBody)),
           (''created_at'', JNum (int (p_created_at payment)))]"

text \<open>
  The inner \<^verbatim>\<open>try\<close>, entered with the key locked and, as the handler has checked,
  with \<^verbatim>\<open>amount_cents\<close> present. The state after the transaction insert is where the
  audit call stands.
\<close>

definition afterGateway :: "pay_env \<Rightarrow> payment_request \<Rightarrow> payment \<Rightarrow> db \<Rightarrow> db" where
  "afterGateway env requestBody payment s =
     recordTransaction env requestBody payment
       (updateWithGatewayResult env requestBody payment
          (s\<lparr>payments := payments s @ [payment]\<rparr>))"

definition createPayment ::
  "pay_env \<Rightarrow> string \<Rightarrow> payment_request \<Rightarrow> db \<Rightarrow> response \<times> db \<times> ledger_call list" where
  "createPayment env idempotencyKey requestBody s =
     (case pe_paymentInsert env of
        Inl paymentError \<Rightarrow>
          onCreateError env idempotencyKey
            (''Failed to create payment: '' @
               (case paymentError of Some m \<Rightarrow> m | None \<Rightarrow> ''unknown error'')) s
      | Inr (newId, createdAt) \<Rightarrow>
          let payment = newPayment env idempotencyKey requestBody newId createdAt;
              s3 = afterGateway env requestBody payment s
          in (case pe_auditThrows env of
                Some message \<Rightarrow> onCreateError env idempotencyKey message s3
              | None \<Rightarrow>
                  let responseBody = responseBodyOf env requestBody payment
                  in ((201, responseBody),
                      release env idempotencyKey responseBody 201 s3,
                      [Release idempotencyKey responseBody 201])))"

text \<open>What the runtime gets from the handler: a response, or an exception it did not catch.\<close>

datatype outcome = Threw | Replied response

definition paymentsHandler ::
  "pay_env \<Rightarrow> pay_request \<Rightarrow> db \<Rightarrow> outcome \<times> db \<times> ledger_call list" where
  "paymentsHandler env req s =
     (case beforeLock env req s of
        Throws \<Rightarrow> (Threw, s, [])
      | Return r \<Rightarrow> (Replied r, s, [])
      | Proceed idempotencyKey requestBody requestHash \<Rightarrow>
          if pe_lockError env
          then (Replied (500, errorBody ''Internal server error''), s,
                [Upsert idempotencyKey requestHash])
          else (case createPayment env idempotencyKey requestBody
                       (lockKey (pe_now env) idempotencyKey requestHash s) of
                  (r, s', calls) \<Rightarrow>
                    (Replied r, s', Upsert idempotencyKey requestHash # calls)))"

definition replyOf :: "outcome \<times> db \<times> ledger_call list \<Rightarrow> outcome" where
  "replyOf r = fst r"

definition storeOf :: "outcome \<times> db \<times> ledger_call list \<Rightarrow> db" where
  "storeOf r = fst (snd r)"

definition callsOf :: "outcome \<times> db \<times> ledger_call list \<Rightarrow> ledger_call list" where
  "callsOf r = snd (snd r)"

section \<open>The reconciliation engine\<close>

text \<open>
  \<^verbatim>\<open>src/components/ReconciliationEngine.tsx\<close>, \<^verbatim>\<open>runReconciliation\<close>. A payment row is the
  object \<^verbatim>\<open>select("*")\<close> returns, with one property for each column of the table, and the
  engine reads its property \<^verbatim>\<open>amount\<close>. The payments function writes the amount to the
  column \<^verbatim>\<open>amount_cents\<close>, which the payments list reads; a row of that table has no
  property \<^verbatim>\<open>amount\<close>, and reading it gives \<^verbatim>\<open>undefined\<close>. The migration and the client
  types (\<^verbatim>\<open>integrations/supabase/types.ts\<close>) name the column \<^verbatim>\<open>amount\<close>, non-null; the
  insert of the payments function names columns that table does not have. A row carries
  both properties, each a number, \<^verbatim>\<open>null\<close> or \<^verbatim>\<open>undefined\<close>. A record has a nullable
  \<^verbatim>\<open>amount\<close>, and both external ids are nullable. The update of a record is applied to
  the rows with its id. The summary's \<^verbatim>\<open>match_rate\<close> is a formatted double and is left
  out.
\<close>

datatype js_number = Undefined | Null | Number int

record client_payment =
  cp_id :: string
  cp_user_id :: "string option"
  cp_amount :: js_number
  cp_amount_cents :: js_number
  cp_currency :: string
  cp_status :: string
  cp_external_payment_id :: "string option"
  cp_created_at :: nat

text \<open>A payment the payments function has stored, as \<^verbatim>\<open>select("*")\<close> returns it.\<close>

definition selectRow :: "payment \<Rightarrow> client_payment" where
  "selectRow p =
     \<lparr>cp_id = p_id p, cp_user_id = p_user_id p, cp_amount = Undefined,
      cp_amount_cents = Number (p_amount_cents p), cp_currency = p_currency p,
      cp_status = p_status p, cp_external_payment_id = p_external_payment_id p,
      cp_created_at = p_created_at p\<rparr>"

definition paymentRows :: "db \<Rightarrow> client_payment list" where
  "paymentRows s = map selectRow (payments s)"

text \<open>\<^verbatim>\<open>record.amount === payment.amount\<close>, the left side a number or \<^verbatim>\<open>null\<close>.\<close>

definition strictEquals :: "int option \<Rightarrow> js_number \<Rightarrow> bool" where
  "strictEquals a b =
     (case b of Undefined \<Rightarrow> False | Null \<Rightarrow> a = None | Number y \<Rightarrow> a = Some y)"

record reconciliation_record =
  rr_id :: string
  rr_uploaded_by :: "string option"
  rr_external_transaction_id :: "string option"
  rr_amount :: "int option"
  rr_currency :: "string option"
  rr_status :: "string option"
  rr_matched_payment_id :: "string option"

record recon_db =
  reconciliation_records :: "reconciliation_record list"
  client_payments :: "client_payment list"

record summary =
  total_records :: nat
  matched :: nat
  unmatched :: nat

datatype run_result = AuthenticationRequired | ReconciliationFailed | Completed summary

definition markMatched :: "string \<Rightarrow> string \<Rightarrow> reconciliation_record list \<Rightarrow> reconciliation_record list" where
  "markMatched recordId paymentId tbl =
     map (\<lambda>r. if rr_id r = recordId
              then r\<lparr>rr_status := Some ''matched'', rr_matched_payment_id := Some paymentId\<rparr>
              else r) tbl"

text \<open>The inner loop: the first payment of the list with both fields equal, if any.\<close>

fun findMatch :: "client_payment list \<Rightarrow> reconciliation_record \<Rightarrow> client_payment option" where
  "findMatch [] record = None"
| "findMatch (payment # rest) record =
     (let amountMatch = strictEquals (rr_amount record) (cp_amount payment);
          idMatch = (rr_external_transaction_id record = cp_external_payment_id payment)
      in if amountMatch \<and> idMatch then Some payment else findMatch rest record)"

text \<open>The outer loop, with the table it updates and the two counters.\<close>

fun matchLoop ::
  "client_payment list \<Rightarrow> reconciliation_record list \<Rightarrow> reconciliation_record list \<Rightarrow> nat \<Rightarrow> nat
     \<Rightarrow> reconciliation_record list \<times> nat \<times> nat" where
  "matchLoop ps [] tbl m u = (tbl, m, u)"
| "matchLoop ps (record # rest) tbl m u =
     (case findMatch ps record of
        Some payment \<Rightarrow> matchLoop ps rest (markMatched (rr_id record) (cp_id payment) tbl) (m + 1) u
      | None \<Rightarrow> matchLoop ps rest tbl m (u + 1))"

definition runReconciliation :: "string option \<Rightarrow> bool \<Rightarrow> bool \<Rightarrow> recon_db \<Rightarrow> run_result \<times> recon_db" where
  "runReconciliation user recordsError paymentsError s =
     (case user of
        None \<Rightarrow> (AuthenticationRequired, s)
      | Some uid \<Rightarrow>
          if recordsError then (ReconciliationFailed, s)
          else
            let unmatchedRecords =
                  filter (\<lambda>r. rr_uploaded_by r = Some uid \<and> rr_status r = Some ''unmatched'')
                    (reconciliation_records s)
            in if paymentsError then (ReconciliationFailed, s)
               else
                 let ps = filter (\<lambda>p. cp_user_id p = Some uid) (client_payments s);
                     (tbl, m, u) = matchLoop ps unmatchedRecords (reconciliation_records s) 0 0
                 in (Completed \<lparr>total_records = length unmatchedRecords, matched = m, unmatched = u\<rparr>,
                     s\<lparr>reconciliation_records := tbl\<rparr>))"

definition recordById :: "reconciliation_record list \<Rightarrow> string \<Rightarrow> reconciliation_record option" where
  "recordById tbl i = find (\<lambda>r. rr_id r = i) tbl"

text \<open>The test of the inner loop, as a predicate on a record and a payment row.\<close>

definition matches :: "reconciliation_record \<Rightarrow> client_payment \<Rightarrow> bool" where
  "matches record payment =
     (strictEquals (rr_amount record) (cp_amount payment)
      \<and> rr_external_transaction_id record = cp_external_payment_id payment)"

section \<open>Concrete inputs\<close>

text \<open>
  Requests, environments and stores at which the properties below are instantiated.
  \<open>toyHmac\<close> stands in for the HMAC primitive: it rejects the empty key and has a fixed
  two-byte digest. \<open>toySha\<close> and \<open>toyStringify\<close> stand in for SHA-256 and
  \<^verbatim>\<open>JSON.stringify\<close>; they tell the two bodies used below apart.
\<close>

definition toyHmac :: "string \<Rightarrow> string \<Rightarrow> byte list option" where
  "toyHmac secret payload = (if secret = [] then None else Some [10, 255])"


definition toyParse :: "string \<Rightarrow> webhook_payload option" where
  "toyParse body =
     (if body = ''{}''
      then Some \<lparr>wp_event_type = ''payment.succeeded'',
                 wp_data = [(''payment_id'', JStr ''pay_1'')],
                 wp_timestamp = ''2025-01-01T00:00:00Z'', wp_event_id = ''evt_1''\<rparr>
      else None)"

definition toyJson :: "json \<Rightarrow> string" where
  "toyJson v = (case v of JBool b \<Rightarrow> (if b then ''true'' else ''false'')
                | JNum n \<Rightarrow> jsNumberText n | _ \<Rightarrow> ''{}'')"

definition whEnv :: wh_env where
  "whEnv = \<lparr>we_secret = Some ''k'', we_hmac = toyHmac, we_parse = toyParse,
            we_stringify = toyJson,
            we_eventInsert = Some ''e1'', we_deliveryInsert = Some 7,
            we_updateError = True, we_now = 1000\<rparr>"

definition whReq :: wh_request where
  "whReq = \<lparr>wr_method = ''POST'', wr_signature = Some ''sha256=0aff'', wr_body = ''{}''\<rparr>"

definition emptyDb :: db where
  "emptyDb = \<lparr>idempotency_keys = Map.empty, payments = [], transactions = [],
              webhook_events = Map.empty, webhook_deliveries = []\<rparr>"

definition staleDelivery :: webhook_delivery where
  "staleDelivery = \<lparr>wd_id = 3, wd_event_type = ''payment.failed'',
                     wd_payload = \<lparr>wp_event_type = ''payment.failed'', wp_data = [],
                                   wp_timestamp = ''2025-01-01T00:00:00Z'', wp_event_id = ''evt_0''\<rparr>,
                     wd_signature = Some ''sha256=0aff'', wd_status = ''failed'', wd_attempts = 4,
                     wd_error = Some ''HTTP 500: boom'', wd_next_attempt_at = Some 500,
                     wd_delivered_at = None, wd_created_at = 10\<rparr>"

definition earlyDelivery :: webhook_delivery where
  "earlyDelivery = \<lparr>wd_id = 4, wd_event_type = ''payment.failed'',
                     wd_payload = \<lparr>wp_event_type = ''payment.failed'', wp_data = [],
                                   wp_timestamp = ''2025-01-01T00:00:00Z'', wp_event_id = ''evt_2''\<rparr>,
                     wd_signature = Some ''sha256=0aff'', wd_status = ''failed'', wd_attempts = 1,
                     wd_error = Some ''HTTP 503: unavailable'', wd_next_attempt_at = Some 500,
                     wd_delivered_at = None, wd_created_at = 20\<rparr>"

definition retryDb :: db where
  "retryDb = emptyDb\<lparr>webhook_deliveries := [staleDelivery]\<rparr>"

definition earlyDb :: db where
  "earlyDb = emptyDb\<lparr>webhook_deliveries := [earlyDelivery]\<rparr>"

definition pendingPayment :: payment where
  "pendingPayment = \<lparr>p_id = ''p1'', p_amount_cents = 10000, p_currency = ''USD'',
                      p_customer_email = None, p_payment_method = None, p_metadata = [],
                      p_user_id = Some ''u1'', p_external_payment_id = Some ''pay_1'',
                      p_idempotency_key = ''K1'', p_status = ''pending'', p_gateway_ref = None,
                      p_created_at = 5\<rparr>"

definition payDb :: db where
  "payDb = emptyDb\<lparr>payments := [pendingPayment]\<rparr>"

definition whEnvOk :: wh_env where
  "whEnvOk = whEnv\<lparr>we_updateError := False\<rparr>"

definition toySha :: "string \<Rightarrow> byte list" where
  "toySha input = [of_nat (length input)]"

definition toyStringify :: "payment_request \<Rightarrow> string" where
  "toyStringify b =
     (case pr_amount_cents b of
        None \<Rightarrow> ''null''
      | Some a \<Rightarrow> (if a < 1000 then ''lo'' else ''large'') @ currencyOf b)"

definition payEnv :: pay_env where
  "payEnv = \<lparr>pe_sha256 = toySha, pe_stringify = toyStringify, pe_keySelectErr = False,
             pe_lockError = False, pe_now = 42, pe_random = ''abc123xyz'',
             pe_paymentInsert = Inr (''p1'', 42), pe_gatewaySucceeds = True,
             pe_processingFee = (\<lambda>a. a * 29 div 1000 + 30), pe_updateError = False,
             pe_txnError = False, pe_auditThrows = Some auditTypeError,
             pe_releaseError = False\<rparr>"

definition body10000 :: payment_request where
  "body10000 = \<lparr>pr_amount_cents = Some 10000, pr_currency = Some ''USD'',
                pr_customer_email = None, pr_payment_method = None, pr_metadata = None,
                pr_user_id = Some ''u1''\<rparr>"

definition payReqOf :: "payment_request \<Rightarrow> pay_request" where
  "payReqOf b = \<lparr>rq_method = ''POST'', rq_idempotency_key = Some ''K1'', rq_body = JsonValue b\<rparr>"

definition payReq :: pay_request where
  "payReq = payReqOf body10000"

definition lockedDb :: db where
  "lockedDb = emptyDb\<lparr>idempotency_keys :=
      [''K1'' \<mapsto> \<lparr>ik_key = ''K1'', ik_endpoint = ''/payments'', ik_method = ''POST'',
                   ik_request_hash = ''05'', ik_response = None, ik_status_code = None,
                   ik_locked = True, ik_last_used_at = 1\<rparr>]\<rparr>"

text \<open>An outage of the store after the key was locked: the insert and the release are both rejected.\<close>

definition outageEnv :: pay_env where
  "outageEnv = payEnv\<lparr>pe_paymentInsert := Inl (Some ''connection refused''),
                      pe_releaseError := True\<rparr>"

text \<open>A later invocation whose read of the ledger fails; the store accepts its insert.\<close>

definition readErrorEnv :: pay_env where
  "readErrorEnv = payEnv\<lparr>pe_keySelectErr := True, pe_now := 99, pe_random := ''zzz999zzz'',
                         pe_paymentInsert := Inr (''p2'', 99)\<rparr>"

text \<open>The same, on a store whose \<^verbatim>\<open>payments.idempotency_key\<close> is unique, as the migration declares it.\<close>

definition readErrorUniqueEnv :: pay_env where
  "readErrorUniqueEnv = readErrorEnv\<lparr>pe_paymentInsert :=
      Inl (Some ''duplicate key value violates unique constraint'')\<rparr>"

definition bodyInvalidCurrency :: payment_request where
  "bodyInvalidCurrency = body10000\<lparr>pr_currency := Some ''INVALID''\<rparr>"

text \<open>
  A bank record for the payment of the request above, and the reconciliation store made
  of it and the rows of the payments table after that request.
\<close>

definition recStored :: reconciliation_record where
  "recStored = \<lparr>rr_id = ''r0'', rr_uploaded_by = Some ''u1'',
                 rr_external_transaction_id = Some ''pay_42_abc123xyz'', rr_amount = Some 10000,
                 rr_currency = Some ''USD'', rr_status = Some ''unmatched'',
                 rr_matched_payment_id = None\<rparr>"

definition storedDb :: recon_db where
  "storedDb = \<lparr>reconciliation_records = [recStored],
               client_payments = paymentRows (storeOf (paymentsHandler payEnv payReq emptyDb))\<rparr>"

definition recPay1 :: reconciliation_record where
  "recPay1 = \<lparr>rr_id = ''r1'', rr_uploaded_by = Some ''u1'',
               rr_external_transaction_id = Some ''PAY_1'', rr_amount = Some 10000,
               rr_currency = Some ''USD'', rr_status = Some ''unmatched'',
               rr_matched_payment_id = None\<rparr>"

text \<open>Two stored payments with the same external id and amount, the second created later.\<close>

definition paidOnce :: payment where
  "paidOnce = \<lparr>p_id = ''pC'', p_amount_cents = 10000, p_currency = ''USD'',
                p_customer_email = None, p_payment_method = None, p_metadata = [],
                p_user_id = Some ''u1'', p_external_payment_id = Some ''PAY_1'',
                p_idempotency_key = ''K3'', p_status = ''succeeded'', p_gateway_ref = None,
                p_created_at = 3\<rparr>"

definition paidAgain :: payment where
  "paidAgain = paidOnce\<lparr>p_id := ''pD'', p_idempotency_key := ''K4'', p_created_at := 4\<rparr>"

definition duplicateStore :: db where
  "duplicateStore = emptyDb\<lparr>payments := [paidOnce, paidAgain]\<rparr>"

definition duplicateDb :: recon_db where
  "duplicateDb = \<lparr>reconciliation_records = [recPay1],
                  client_payments = paymentRows duplicateStore\<rparr>"

text \<open>The same two payments as rows of a table whose amount column is \<^verbatim>\<open>amount\<close>.\<close>

definition payExact :: client_payment where
  "payExact = \<lparr>cp_id = ''pC'', cp_user_id = Some ''u1'', cp_amount = Number 10000,
                cp_amount_cents = Undefined, cp_currency = ''USD'', cp_status = ''succeeded'',
                cp_external_payment_id = Some ''PAY_1'', cp_created_at = 3\<rparr>"

definition payExactLater :: client_payment where
  "payExactLater = payExact\<lparr>cp_id := ''pD'', cp_created_at := 4\<rparr>"

definition duplicateAmountDb :: recon_db where
  "duplicateAmountDb = \<lparr>reconciliation_records = [recPay1],
                        client_payments = [payExact, payExactLater]\<rparr>"

section \<open>Properties of the signature verifier\<close>

lemma hexDigit_in: "d < 16 \<Longrightarrow> hexDigit d \<in> set ''0123456789abcdef''"
  unfolding hexDigit_def by (rule nth_mem) simp

lemma toString16_digits: "set (toString16 n) \<subseteq> set ''0123456789abcdef''"
proof (induction n rule: toString16.induct)
  case (1 n)
  show ?case
  proof (cases "n < 16")
    case True
    then show ?thesis using hexDigit_in[of n] by (subst toString16.simps) simp
  next
    case False
    have "n mod 16 < 16" by simp
    then show ?thesis using False 1 hexDigit_in[of "n mod 16"] by (subst toString16.simps) simp
  qed
qed

lemma toString16_length_byte: "n < 256 \<Longrightarrow> length (toString16 n) \<le> 2 \<and> toString16 n \<noteq> []"
proof (cases "n < 16")
  case True
  then show ?thesis by (subst (1 2) toString16.simps) simp
next
  case False
  assume "n < 256"
  then have "n div 16 < 16" by simp
  then have "toString16 (n div 16) = [hexDigit (n div 16)]" by (subst toString16.simps) simp
  with False show ?thesis by (subst (1 2) toString16.simps) simp
qed

lemma padStart_length: "length (padStart 2 c (toString16 (unat (b::byte)))) = 2"
proof -
  have "unat b < 256" using unsigned_less[of b] by simp
  from toString16_length_byte[OF this] show ?thesis by (auto simp: padStart_def)
qed

lemma hexOfBytes_length: "length (hexOfBytes bs) = 2 * length bs"
  by (induction bs) (auto simp: hexOfBytes_def padStart_length)

lemma hexOfBytes_digits: "set (hexOfBytes bs) \<subseteq> set ''0123456789abcdef''"
  using toString16_digits by (induction bs) (auto simp: hexOfBytes_def padStart_def)

lemma replaceFirst_absent: "\<not> sublist pat s \<Longrightarrow> replaceFirst pat rep s = s"
proof (induction s)
  case Nil
  then show ?case by auto
next
  case (Cons c cs)
  then show ?case by (auto simp: sublist_Cons_right)
qed

lemma replaceFirst_first:
  "s = pre @ pat @ post \<Longrightarrow> (\<forall>pre' post'. s = pre' @ pat @ post' \<longrightarrow> length pre \<le> length pre')
    \<Longrightarrow> replaceFirst pat rep s = pre @ rep @ post"
proof (induction pre arbitrary: s)
  case Nil
  then have s: "s = pat @ post" by simp
  show ?case
  proof (cases s)
    case Nil
    with s show ?thesis by simp
  next
    case (Cons c cs)
    have "prefix pat (c # cs)" using s Cons by (metis prefixI)
    moreover have "drop (length pat) (c # cs) = post" using s Cons by (metis append_eq_conv_conj)
    ultimately show ?thesis using Cons by simp
  qed
next
  case (Cons a pre)
  have np: "\<not> prefix pat s"
  proof
    assume "prefix pat s"
    then obtain post' where "s = [] @ pat @ post'" by (auto simp: prefix_def)
    with Cons.prems(2) have "length (a # pre) \<le> length ([]::'a list)" by blast
    then show False by simp
  qed
  have "\<forall>pre' post'. pre @ pat @ post = pre' @ pat @ post' \<longrightarrow> length pre \<le> length pre'"
  proof (intro allI impI)
    fix pre' post' assume "pre @ pat @ post = pre' @ pat @ post'"
    then have "s = (a # pre') @ pat @ post'" using Cons.prems(1) by simp
    with Cons.prems(2) have "length (a # pre) \<le> length (a # pre')" by blast
    then show "length pre \<le> length pre'" by simp
  qed
  from Cons.IH[OF refl this] np Cons.prems(1) show ?case by simp
qed

lemma first_occurrence_exists:
  assumes "sublist pat s"
  shows "\<exists>pre post. s = pre @ pat @ post \<and>
           (\<forall>pre' post'. s = pre' @ pat @ post' \<longrightarrow> length pre \<le> length pre')"
proof -
  let ?P = "\<lambda>n. \<exists>pre post. s = pre @ pat @ post \<and> length pre = n"
  from assms obtain pre0 post0 where "s = pre0 @ pat @ post0" by (auto simp: sublist_def)
  then have "?P (length pre0)" by blast
  then have least: "?P (LEAST n. ?P n)" by (rule LeastI)
  then obtain pre post where pp: "s = pre @ pat @ post" "length pre = (LEAST n. ?P n)" by blast
  have "\<forall>pre' post'. s = pre' @ pat @ post' \<longrightarrow> length pre \<le> length pre'"
  proof (intro allI impI)
    fix pre' post' assume "s = pre' @ pat @ post'"
    then have "?P (length pre')" by blast
    then have "(LEAST n. ?P n) \<le> length pre'" by (rule Least_le)
    with pp(2) show "length pre \<le> length pre'" by simp
  qed
  with pp(1) show ?thesis by blast
qed

lemma replaceFirst_spec:
  "replaceFirst pat [] s = r \<longleftrightarrow> firstOccurrenceRemoved pat s r"
proof (cases "sublist pat s")
  case True
  from first_occurrence_exists[OF True] obtain pre post where
    pp: "s = pre @ pat @ post" "\<forall>pre' post'. s = pre' @ pat @ post' \<longrightarrow> length pre \<le> length pre'"
    by blast
  from replaceFirst_first[OF pp, of "[]"] have rf: "replaceFirst pat [] s = pre @ post" by simp
  show ?thesis
  proof
    assume "replaceFirst pat [] s = r"
    with rf have "r = pre @ post" by simp
    with pp have "\<exists>pre post. s = pre @ pat @ post \<and> r = pre @ post \<and>
              (\<forall>pre' post'. s = pre' @ pat @ post' \<longrightarrow> length pre \<le> length pre')"
      by blast
    with True show "firstOccurrenceRemoved pat s r"
      unfolding firstOccurrenceRemoved_def by simp
  next
    assume "firstOccurrenceRemoved pat s r"
    with True have "\<exists>pre post. s = pre @ pat @ post \<and> r = pre @ post \<and>
              (\<forall>pre' post'. s = pre' @ pat @ post' \<longrightarrow> length pre \<le> length pre')"
      unfolding firstOccurrenceRemoved_def by simp
    then obtain pre2 post2 where
      p2: "s = pre2 @ pat @ post2" "r = pre2 @ post2"
          "\<forall>pre' post'. s = pre' @ pat @ post' \<longrightarrow> length pre2 \<le> length pre'"
      by blast
    from replaceFirst_first[OF p2(1) p2(3), of "[]"] p2(2) show "replaceFirst pat [] s = r" by simp
  qed
next
  case False
  then show ?thesis using replaceFirst_absent[OF False, of "[]"]
    unfolding firstOccurrenceRemoved_def by (simp add: eq_commute)
qed

lemma hex_has_no_prefix_marker: "\<not> sublist ''sha256='' (hexOfBytes mac)"
proof
  assume "sublist ''sha256='' (hexOfBytes mac)"
  then have "set ''sha256='' \<subseteq> set (hexOfBytes mac)" by (rule set_mono_sublist)
  then have "CHR ''s'' \<in> set (hexOfBytes mac)" by simp
  with hexOfBytes_digits[of mac] have "CHR ''s'' \<in> set ''0123456789abcdef''" by blast
  then show False by simp
qed

text \<open>
  C10. The verifier does not require the \<^verbatim>\<open>sha256=\<close> prefix: it returns true exactly
  when the provided signature, with its first occurrence of \<^verbatim>\<open>sha256=\<close> removed (wherever
  it stands, or absent), is the lowercase hex digest computed for the payload under the
  secret (two digits of \<^verbatim>\<open>0-9a-f\<close> for each byte). So the bare hex digest is accepted as
  well as the documented \<^verbatim>\<open>sha256=<hex>\<close> form.
\<close>

theorem verifyHMACSignature_prefix_optional:
  "(verifyHMACSignature hmac payload signature secret \<longleftrightarrow>
      (\<exists>mac. hmac secret payload = Some mac
         \<and> firstOccurrenceRemoved ''sha256='' signature (hexOfBytes mac)))
   \<and> (hmac secret payload = Some mac' \<longrightarrow>
        verifyHMACSignature hmac payload (hexOfBytes mac') secret
        \<and> verifyHMACSignature hmac payload (''sha256='' @ hexOfBytes mac') secret)
   \<and> set (hexOfBytes mac') \<subseteq> set ''0123456789abcdef''
   \<and> length (hexOfBytes mac') = 2 * length mac'"
proof (intro conjI impI)
  show "set (hexOfBytes mac') \<subseteq> set ''0123456789abcdef''"
    by (rule hexOfBytes_digits)
  show "length (hexOfBytes mac') = 2 * length mac'"
    by (rule hexOfBytes_length)
  show "verifyHMACSignature hmac payload signature secret \<longleftrightarrow>
      (\<exists>mac. hmac secret payload = Some mac
         \<and> firstOccurrenceRemoved ''sha256='' signature (hexOfBytes mac))"
  proof (cases "hmac secret payload")
    case None
    then show ?thesis by (simp add: verifyHMACSignature_def)
  next
    case (Some mac)
    have "verifyHMACSignature hmac payload signature secret
            \<longleftrightarrow> replaceFirst ''sha256='' [] signature = hexOfBytes mac"
      using Some by (auto simp: verifyHMACSignature_def Let_def)
    also have "\<dots> \<longleftrightarrow> firstOccurrenceRemoved ''sha256='' signature (hexOfBytes mac)"
      by (rule replaceFirst_spec)
    finally show ?thesis using Some by simp
  qed
next
  assume "hmac secret payload = Some mac'"
  then show "verifyHMACSignature hmac payload (hexOfBytes mac') secret"
    using replaceFirst_absent[OF hex_has_no_prefix_marker, of "[]" mac']
    by (simp add: verifyHMACSignature_def)
next
  assume "hmac secret payload = Some mac'"
  then show "verifyHMACSignature hmac payload (''sha256='' @ hexOfBytes mac') secret"
    by (simp add: verifyHMACSignature_def)
qed

lemma hex_toy: "hexOfBytes [10, 255] = ''0aff''"
  by code_simp

theorem verifyHMACSignature_prefix_optional_witness:
  "toyHmac ''k'' ''{}'' = Some [10, 255]
   \<and> verifyHMACSignature toyHmac ''{}'' ''0aff'' ''k''
   \<and> verifyHMACSignature toyHmac ''{}'' ''sha256=0aff'' ''k''
   \<and> \<not> verifyHMACSignature toyHmac ''{}'' ''sha256=0afe'' ''k''"
proof -
  have h: "toyHmac ''k'' ''{}'' = Some [10, 255]" by (simp add: toyHmac_def)
  have n: "\<not> verifyHMACSignature toyHmac ''{}'' ''sha256=0afe'' ''k''"
    by (simp add: verifyHMACSignature_def h hex_toy)
  from verifyHMACSignature_prefix_optional[of toyHmac "''{}''" "''0aff''" "''k''" "[10, 255]"] h
  have "verifyHMACSignature toyHmac ''{}'' (hexOfBytes [10, 255]) ''k''
        \<and> verifyHMACSignature toyHmac ''{}'' (''sha256='' @ hexOfBytes [10, 255]) ''k''"
    by blast
  then have "verifyHMACSignature toyHmac ''{}'' ''0aff'' ''k''
        \<and> verifyHMACSignature toyHmac ''{}'' ''sha256=0aff'' ''k''"
    by (simp add: hex_toy)
  with h n show ?thesis by blast
qed

section \<open>Properties of the backoff and of the delivery rows\<close>

lemma find_map_same_id:
  assumes "\<And>d. wd_id (f d) = wd_id d"
  shows "find (\<lambda>d. wd_id d = j) (map (\<lambda>d. if wd_id d = i then f d else d) xs)
         = (if i = j then map_option f (find (\<lambda>d. wd_id d = j) xs) else find (\<lambda>d. wd_id d = j) xs)"
  using assms by (induction xs) auto

lemma deliveryById_updateDeliveries:
  assumes "\<And>d. wd_id (f d) = wd_id d"
  shows "deliveryById (updateDeliveries i f s) j
         = (if i = j then map_option f (deliveryById s j) else deliveryById s j)"
  unfolding deliveryById_def updateDeliveries_def
  using find_map_same_id[of f j i "webhook_deliveries s", OF assms] by simp

lemma deliveryById_scheduleRetry:
  "deliveryById (scheduleRetry now i n s) j
     = (if i = j then map_option (\<lambda>r. r\<lparr>wd_next_attempt_at := Some (nextAttemptAt now n), wd_attempts := n + 1\<rparr>)
                        (deliveryById s j)
        else deliveryById s j)"
  unfolding scheduleRetry_def by (rule deliveryById_updateDeliveries) simp

text \<open>
  C5. The backoff delay is a function of the attempts counter alone: for every \<open>n\<close> it is
  \<open>min (2^n * 60) 3600\<close> seconds, so the next attempt is at now + 120 s for 1, now + 960 s
  for 4 and capped at now + 3600 s from 6 on; \<^verbatim>\<open>scheduleRetry\<close> stores that time and
  \<open>n + 1\<close> attempts in the delivery row.
\<close>

theorem scheduleRetry_backoff:
  "nextAttemptDelay n = min (2 ^ n * 60) 3600
   \<and> nextAttemptAt now 1 = now + 120 * 1000
   \<and> nextAttemptAt now 4 = now + 960 * 1000
   \<and> nextAttemptAt now 6 = now + 3600 * 1000
   \<and> nextAttemptDelay (6 + k) = 3600
   \<and> deliveryById (scheduleRetry now i n s) i
       = map_option (\<lambda>r. r\<lparr>wd_next_attempt_at := Some (now + min (2 ^ n * 60) 3600 * 1000),
                             wd_attempts := n + 1\<rparr>) (deliveryById s i)"
proof -
  have cap: "nextAttemptDelay (6 + k) = 3600"
  proof -
    have "(2::nat) ^ (6 + k) = 64 * 2 ^ k" by (simp add: power_add)
    moreover have "(1::nat) \<le> 2 ^ k" by simp
    then have "(64::nat) * 1 \<le> 64 * 2 ^ k" by (rule mult_le_mono2)
    ultimately have "(3600::nat) \<le> 2 ^ (6 + k) * 60" by linarith
    then show ?thesis unfolding nextAttemptDelay_def by simp
  qed
  have "deliveryById (scheduleRetry now i n s) i
       = map_option (\<lambda>r. r\<lparr>wd_next_attempt_at := Some (now + min (2 ^ n * 60) 3600 * 1000),
                             wd_attempts := n + 1\<rparr>) (deliveryById s i)"
    by (simp add: deliveryById_scheduleRetry nextAttemptAt_def nextAttemptDelay_def)
  with cap show ?thesis by (simp add: nextAttemptAt_def nextAttemptDelay_def)
qed

section \<open>Properties of the webhooks function and of the retry sweep\<close>

lemma updateDeliveries_other [simp]:
  "webhook_events (updateDeliveries i f s) = webhook_events s"
  "payments (updateDeliveries i f s) = payments s"
  "idempotency_keys (updateDeliveries i f s) = idempotency_keys s"
  "transactions (updateDeliveries i f s) = transactions s"
  by (simp_all add: updateDeliveries_def)

lemma markProcessed_other [simp]:
  "webhook_deliveries (markProcessed now i s) = webhook_deliveries s"
  "payments (markProcessed now i s) = payments s"
  "dom (webhook_events (markProcessed now i s)) = dom (webhook_events s)"
  by (auto simp: markProcessed_def dom_def)

lemma processWebhookEvent_other:
  assumes "processWebhookEvent js u ev s = Inr s'"
  shows "webhook_events s' = webhook_events s" "webhook_deliveries s' = webhook_deliveries s"
  using assms
  by (auto simp: processWebhookEvent_def handlePaymentSucceeded_def handlePaymentFailed_def
      handlePaymentRefunded_def updatePaymentsByExternalId_def split: if_splits option.splits)

lemma onProcessingError_events [simp]:
  "webhook_events (onProcessingError now m d s) = webhook_events s"
  "payments (onProcessingError now m d s) = payments s"
  by (simp_all add: onProcessingError_def scheduleRetry_def split: option.splits)

lemma insertDelivery_other [simp]:
  "webhook_events (insertDelivery d s) = webhook_events s"
  "payments (insertDelivery d s) = payments s"
  by (simp_all add: insertDelivery_def split: option.splits)

lemma insertEvent_other [simp]:
  "webhook_deliveries (insertEvent e s) = webhook_deliveries s"
  "payments (insertEvent e s) = payments s"
  "webhook_events (insertEvent e s) = (webhook_events s)(ev_event_id e \<mapsto> e)"
  by (simp_all add: insertEvent_def)

lemma onProcessed_events [simp]:
  "dom (webhook_events (onProcessed now e d s)) = dom (webhook_events s)"
  "payments (onProcessed now e d s) = payments s"
  by (simp_all add: onProcessed_def Let_def split: option.splits)

lemma storeAndProcess_dom:
  assumes "we_eventInsert env \<noteq> None"
  shows "dom (webhook_events (snd (storeAndProcess env sg ev s)))
           = insert (wp_event_id ev) (dom (webhook_events s))"
proof -
  from assms obtain newId where ins: "we_eventInsert env = Some newId" by auto
  have [simp]: "ev_event_id (newWebhookEvent newId sg ev) = wp_event_id ev"
    by (simp add: newWebhookEvent_def)
  show ?thesis
  proof (cases "processWebhookEvent (we_stringify env) (we_updateError env) ev
                  (insertDelivery (map_option (\<lambda>i. newDelivery i (we_now env) sg ev) (we_deliveryInsert env))
                     (insertEvent (newWebhookEvent newId sg ev) s))")
    case (Inl m)
    then show ?thesis using ins by (simp add: storeAndProcess_def Let_def)
  next
    case (Inr s3)
    from processWebhookEvent_other(1)[OF Inr] Inr ins show ?thesis
      by (simp add: storeAndProcess_def Let_def)
  qed
qed

lemma storeAndProcess_stores:
  assumes "we_eventInsert env \<noteq> None"
  shows "webhook_events (snd (storeAndProcess env sg ev s)) (wp_event_id ev) \<noteq> None"
  using storeAndProcess_dom[OF assms, of sg ev s] by (metis domIff insertI1)

lemma storeAndProcess_status:
  "fst (storeAndProcess env sg ev s) \<noteq> (500, errorBody ''Failed to store event'')
   \<Longrightarrow> we_eventInsert env \<noteq> None"
  by (cases "we_eventInsert env") (simp_all add: storeAndProcess_def)

lemma duplicate_unchanged:
  assumes "we_parse env (wr_body req) = Some ev"
      and "webhook_events s (wp_event_id ev) \<noteq> None"
  shows "snd (webhooksHandler env req s) = s"
  using assms by (auto simp: webhooksHandler_def Let_def)

lemma duplicate_response:
  assumes "we_parse env (wr_body req) = Some ev"
      and "webhook_events s (wp_event_id ev) \<noteq> None"
      and "wr_method req = ''POST''"
      and "wr_signature req = Some sg" "sg \<noteq> []" "we_secret env = Some secret" "secret \<noteq> []"
      and "verifyHMACSignature (we_hmac env) (wr_body req) sg secret"
  shows "fst (webhooksHandler env req s) = (200, messageBody ''Event already processed'')"
  using assms by (auto simp: webhooksHandler_def Let_def truthy_def)

lemma handler_processed_stores:
  assumes "fst (webhooksHandler env req s) = (200, messageBody ''Webhook processed successfully'')"
      and "we_parse env (wr_body req) = Some ev"
  shows "webhook_events (snd (webhooksHandler env req s)) (wp_event_id ev) \<noteq> None"
proof (cases "webhook_events s (wp_event_id ev)")
  case (Some e)
  with assms(2) duplicate_unchanged[of env req ev s] show ?thesis by simp
next
  case None
  let ?sg = "the (wr_signature req)"
  from assms None have eq: "webhooksHandler env req s = storeAndProcess env ?sg ev s"
    by (auto simp: webhooksHandler_def Let_def messageBody_def errorBody_def split: if_splits)
  with assms(1) have "fst (storeAndProcess env ?sg ev s) \<noteq> (500, errorBody ''Failed to store event'')"
    by simp
  from storeAndProcess_stores[OF storeAndProcess_status[OF this]] eq show ?thesis by simp
qed

lemma processWebhookEvent_fails:
  assumes "u" and "wp_event_type ev \<in> {''payment.succeeded'', ''payment.failed'', ''payment.refunded''}"
  shows "processWebhookEvent js u ev s = Inl ''Failed to update payment status''"
  using assms
  by (auto simp: processWebhookEvent_def handlePaymentSucceeded_def handlePaymentFailed_def
      handlePaymentRefunded_def)

lemma find_snoc_none: "find P xs = None \<Longrightarrow> P x \<Longrightarrow> find P (xs @ [x]) = Some x"
  by (induction xs) (auto split: if_splits)

lemma deliveryById_insertDelivery:
  "deliveryById s (wd_id d) = None \<Longrightarrow> deliveryById (insertDelivery (Some d) s) (wd_id d) = Some d"
  by (simp add: deliveryById_def insertDelivery_def find_snoc_none)

lemma deliveryById_insertEvent [simp]:
  "deliveryById (insertEvent e s) i = deliveryById s i"
  by (simp add: deliveryById_def)

lemma onProcessingError_first_attempt:
  assumes "deliveryById s (wd_id d) = Some d" and "wd_attempts d < 5"
  shows "deliveryById (onProcessingError now message (Some d) s) (wd_id d)
         = Some (d\<lparr>wd_status := ''failed'', wd_error := Some message,
                    wd_next_attempt_at := Some (nextAttemptAt now (wd_attempts d)),
                    wd_attempts := wd_attempts d + 1\<rparr>)"
  using assms
  by (simp add: onProcessingError_def deliveryById_scheduleRetry deliveryById_updateDeliveries)

lemma handler_failure_row:
  assumes "wr_method req = ''POST''"
      and "wr_signature req = Some sg" "sg \<noteq> []" "we_secret env = Some secret" "secret \<noteq> []"
      and "verifyHMACSignature (we_hmac env) (wr_body req) sg secret"
      and "we_parse env (wr_body req) = Some ev"
      and "webhook_events s (wp_event_id ev) = None"
      and "we_eventInsert env = Some eid" and "we_deliveryInsert env = Some did"
      and "deliveryById s did = None"
      and "we_updateError env"
      and "wp_event_type ev \<in> {''payment.succeeded'', ''payment.failed'', ''payment.refunded''}"
  shows "webhooksHandler env req s =
           ((500, errorBody ''Processing failed, will retry''),
            onProcessingError (we_now env) ''Failed to update payment status''
              (Some (newDelivery did (we_now env) sg ev))
              (insertDelivery (Some (newDelivery did (we_now env) sg ev))
                 (insertEvent (newWebhookEvent eid sg ev) s)))"
proof -
  have "webhooksHandler env req s = storeAndProcess env sg ev s"
    using assms(1-8) by (simp add: webhooksHandler_def Let_def truthy_def)
  also have "\<dots> = ((500, errorBody ''Processing failed, will retry''),
            onProcessingError (we_now env) ''Failed to update payment status''
              (Some (newDelivery did (we_now env) sg ev))
              (insertDelivery (Some (newDelivery did (we_now env) sg ev))
                 (insertEvent (newWebhookEvent eid sg ev) s)))"
    using assms(9,10) processWebhookEvent_fails[OF assms(12,13)]
    by (simp add: storeAndProcess_def Let_def)
  finally show ?thesis .
qed

lemma dueDeliveries_failed: "d \<in> set (dueDeliveries now s) \<Longrightarrow> wd_status d = ''failed''"
  by (auto simp: dueDeliveries_def dest: in_set_takeD)

lemma retry_failure_row:
  assumes "deliveryById s (wd_id d) = Some d" and "failureText outcome = Some err"
  shows "fst (retryDelivery now outcome d s) = False"
    and "deliveryById (snd (retryDelivery now outcome d s)) (wd_id d)
         = Some (if wd_attempts d + 1 \<ge> 5
                 then d\<lparr>wd_status := ''abandoned'',
                         wd_error := Some ''Maximum retry attempts (5) exceeded'',
                         wd_attempts := wd_attempts d + 1\<rparr>
                 else d\<lparr>wd_status := ''failed'', wd_error := Some err,
                         wd_next_attempt_at := Some (nextAttemptAt now (wd_attempts d + 1)),
                         wd_attempts := wd_attempts d + 1\<rparr>)"
proof -
  have t5: "toString10 maxRetries = ''5''" by (simp add: maxRetries_def toString10.simps decDigit_def)
  show "fst (retryDelivery now outcome d s) = False"
    using assms(2)
    by (cases outcome) (auto simp: retryDelivery_def retryFailedWebhook_def failureText_def split: if_splits)
  show "deliveryById (snd (retryDelivery now outcome d s)) (wd_id d)
         = Some (if wd_attempts d + 1 \<ge> 5
                 then d\<lparr>wd_status := ''abandoned'',
                         wd_error := Some ''Maximum retry attempts (5) exceeded'',
                         wd_attempts := wd_attempts d + 1\<rparr>
                 else d\<lparr>wd_status := ''failed'', wd_error := Some err,
                         wd_next_attempt_at := Some (nextAttemptAt now (wd_attempts d + 1)),
                         wd_attempts := wd_attempts d + 1\<rparr>)"
  proof (cases outcome)
    case NoWebhookUrl
    with assms(2) show ?thesis by (simp add: failureText_def)
  next
    case (Responded ok status errorText)
    with assms(2) have ok: "\<not> ok" and err: "err = ''HTTP '' @ toString10 status @ '': '' @ errorText"
      by (auto simp: failureText_def split: if_splits)
    show ?thesis using assms(1) ok err Responded t5
      by (simp add: retryDelivery_def retryFailedWebhook_def scheduleNextRetry_def Let_def
          deliveryById_updateDeliveries maxRetries_def)
  next
    case (FetchThrew message)
    with assms(2) have err: "err = message" by (simp add: failureText_def)
    show ?thesis using assms(1) err FetchThrew t5
      by (simp add: retryDelivery_def retryFailedWebhook_def scheduleNextRetry_def Let_def
          deliveryById_updateDeliveries maxRetries_def)
  qed
qed

text \<open>
  A retry that fails with a request sent, and a processing failure in the webhooks
  handler: the row ends with one more attempt; in the sweep it is abandoned from five
  attempts on and otherwise rescheduled with the error text stored; in the handler the
  row just inserted is rescheduled 120 s later.
\<close>

lemma request_sent_failure_rows:
  "(deliveryById s (wd_id d) = Some d \<and> failureText outcome = Some err \<longrightarrow>
      fst (retryDelivery now outcome d s) = False \<and>
      (\<exists>d'. deliveryById (snd (retryDelivery now outcome d s)) (wd_id d) = Some d'
         \<and> wd_attempts d' = wd_attempts d + 1
         \<and> (if wd_attempts d' \<ge> 5
            then wd_status d' = ''abandoned'' \<and> wd_next_attempt_at d' = wd_next_attempt_at d
                 \<and> wd_error d' = Some ''Maximum retry attempts (5) exceeded''
                 \<and> (\<forall>later s'. d' \<notin> set (dueDeliveries later s'))
            else wd_status d' = ''failed''
                 \<and> wd_next_attempt_at d' = Some (nextAttemptAt now (wd_attempts d'))
                 \<and> wd_error d' = Some err)))
   \<and> (wr_method req = ''POST'' \<and> wr_signature req = Some sg \<and> sg \<noteq> []
        \<and> we_secret env = Some secret \<and> secret \<noteq> []
        \<and> verifyHMACSignature (we_hmac env) (wr_body req) sg secret
        \<and> we_parse env (wr_body req) = Some ev \<and> webhook_events t (wp_event_id ev) = None
        \<and> we_eventInsert env = Some eid \<and> we_deliveryInsert env = Some did
        \<and> deliveryById t did = None \<and> we_updateError env
        \<and> wp_event_type ev \<in> {''payment.succeeded'', ''payment.failed'', ''payment.refunded''} \<longrightarrow>
        fst (webhooksHandler env req t) = (500, errorBody ''Processing failed, will retry'')
        \<and> deliveryById (snd (webhooksHandler env req t)) did
            = Some ((newDelivery did (we_now env) sg ev)
                      \<lparr>wd_status := ''failed'', wd_error := Some ''Failed to update payment status'',
                       wd_next_attempt_at := Some (nextAttemptAt (we_now env) 1),
                       wd_attempts := 2\<rparr>))"
proof (intro conjI impI)
  assume a: "deliveryById s (wd_id d) = Some d \<and> failureText outcome = Some err"
  then show "fst (retryDelivery now outcome d s) = False"
    using retry_failure_row(1)[of s d outcome err now] by blast
  from a retry_failure_row(2)[of s d outcome err now]
  have "deliveryById (snd (retryDelivery now outcome d s)) (wd_id d)
         = Some (if wd_attempts d + 1 \<ge> 5
                 then d\<lparr>wd_status := ''abandoned'',
                         wd_error := Some ''Maximum retry attempts (5) exceeded'',
                         wd_attempts := wd_attempts d + 1\<rparr>
                 else d\<lparr>wd_status := ''failed'', wd_error := Some err,
                         wd_next_attempt_at := Some (nextAttemptAt now (wd_attempts d + 1)),
                         wd_attempts := wd_attempts d + 1\<rparr>)"
    by blast
  then show "\<exists>d'. deliveryById (snd (retryDelivery now outcome d s)) (wd_id d) = Some d'
         \<and> wd_attempts d' = wd_attempts d + 1
         \<and> (if wd_attempts d' \<ge> 5
            then wd_status d' = ''abandoned'' \<and> wd_next_attempt_at d' = wd_next_attempt_at d
                 \<and> wd_error d' = Some ''Maximum retry attempts (5) exceeded''
                 \<and> (\<forall>later s'. d' \<notin> set (dueDeliveries later s'))
            else wd_status d' = ''failed''
                 \<and> wd_next_attempt_at d' = Some (nextAttemptAt now (wd_attempts d'))
                 \<and> wd_error d' = Some err)"
    by (cases "wd_attempts d + 1 \<ge> 5") (auto dest: dueDeliveries_failed)
next
  assume h: "wr_method req = ''POST'' \<and> wr_signature req = Some sg \<and> sg \<noteq> []
        \<and> we_secret env = Some secret \<and> secret \<noteq> []
        \<and> verifyHMACSignature (we_hmac env) (wr_body req) sg secret
        \<and> we_parse env (wr_body req) = Some ev \<and> webhook_events t (wp_event_id ev) = None
        \<and> we_eventInsert env = Some eid \<and> we_deliveryInsert env = Some did
        \<and> deliveryById t did = None \<and> we_updateError env
        \<and> wp_event_type ev \<in> {''payment.succeeded'', ''payment.failed'', ''payment.refunded''}"
  let ?d = "newDelivery did (we_now env) sg ev"
  let ?s2 = "insertDelivery (Some ?d) (insertEvent (newWebhookEvent eid sg ev) t)"
  have eq: "webhooksHandler env req t =
           ((500, errorBody ''Processing failed, will retry''),
            onProcessingError (we_now env) ''Failed to update payment status'' (Some ?d) ?s2)"
    using h handler_failure_row[of req sg env secret ev t eid did] by blast
  then show "fst (webhooksHandler env req t) = (500, errorBody ''Processing failed, will retry'')"
    by simp
  have id: "wd_id ?d = did" and at: "wd_attempts ?d = 1" by (simp_all add: newDelivery_def)
  have "deliveryById (insertEvent (newWebhookEvent eid sg ev) t) (wd_id ?d) = None"
    using h id by simp
  from deliveryById_insertDelivery[OF this] have "deliveryById ?s2 (wd_id ?d) = Some ?d" .
  from onProcessingError_first_attempt[OF this, of "we_now env" "''Failed to update payment status''"] at id
  show "deliveryById (snd (webhooksHandler env req t)) did
            = Some (?d\<lparr>wd_status := ''failed'', wd_error := Some ''Failed to update payment status'',
                       wd_next_attempt_at := Some (nextAttemptAt (we_now env) 1),
                       wd_attempts := 2\<rparr>)"
    unfolding eq by simp
qed

lemma toy_signature_valid: "verifyHMACSignature toyHmac ''{}'' ''sha256=0aff'' ''k''"
  by (simp add: verifyHMACSignature_def toyHmac_def hex_toy)

lemma toy_parse: "toyParse ''{}'' = Some \<lparr>wp_event_type = ''payment.succeeded'',
                 wp_data = [(''payment_id'', JStr ''pay_1'')],
                 wp_timestamp = ''2025-01-01T00:00:00Z'', wp_event_id = ''evt_1''\<rparr>"
  by (simp add: toyParse_def)

lemma staleDelivery_row: "deliveryById retryDb 3 = Some staleDelivery"
  by (simp add: deliveryById_def retryDb_def emptyDb_def staleDelivery_def)

lemma earlyDelivery_row: "deliveryById earlyDb 4 = Some earlyDelivery"
  by (simp add: deliveryById_def earlyDb_def emptyDb_def earlyDelivery_def)

lemma max_retries_text: "toString10 maxRetries = ''5''"
  by (simp add: maxRetries_def toString10.simps decDigit_def)

text \<open>
  C6. A failed delivery does not always have its counter incremented and its error
  stored. A retry fails when no \<^verbatim>\<open>WEBHOOK_URL\<close> is configured, a failure the sweep
  counts and reschedules like any other. A delivery with four attempts is then abandoned
  with its counter still at four, and a delivery with one attempt is rescheduled with
  two attempts but keeps the error text of the failure before: \<^verbatim>\<open>retryFailedWebhook\<close>
  returns before its update, and \<^verbatim>\<open>scheduleNextRetry\<close> writes the counter only on the
  branch that reschedules.
\<close>

theorem unset_destination_abandons_without_increment:
  "fst (retryDelivery 2000 NoWebhookUrl staleDelivery retryDb) = False
   \<and> wd_attempts staleDelivery = 4
   \<and> deliveryById (snd (retryDelivery 2000 NoWebhookUrl staleDelivery retryDb)) 3
       = Some (staleDelivery\<lparr>wd_status := ''abandoned'',
                             wd_error := Some ''Maximum retry attempts (5) exceeded''\<rparr>)
   \<and> map wd_attempts (webhook_deliveries (snd (retryDelivery 2000 NoWebhookUrl staleDelivery retryDb)))
       = [4]
   \<and> fst (retryDelivery 2000 NoWebhookUrl earlyDelivery earlyDb) = False
   \<and> deliveryById (snd (retryDelivery 2000 NoWebhookUrl earlyDelivery earlyDb)) 4
       = Some (earlyDelivery\<lparr>wd_next_attempt_at := Some 242000, wd_attempts := 2\<rparr>)
   \<and> wd_error earlyDelivery = Some ''HTTP 503: unavailable''"
proof -
  have a: "wd_id staleDelivery = 3" "wd_attempts staleDelivery = 4"
    by (simp_all add: staleDelivery_def)
  have b: "wd_id earlyDelivery = 4" "wd_attempts earlyDelivery = 1"
          "wd_error earlyDelivery = Some ''HTTP 503: unavailable''"
    by (simp_all add: earlyDelivery_def)
  have n: "nextAttemptAt 2000 (Suc (Suc 0)) = 242000"
    by (simp add: nextAttemptAt_def nextAttemptDelay_def)
  have s1: "retryDelivery 2000 NoWebhookUrl staleDelivery retryDb
              = (False, scheduleNextRetry 2000 staleDelivery retryDb)"
    by (simp add: retryDelivery_def retryFailedWebhook_def)
  have s2: "retryDelivery 2000 NoWebhookUrl earlyDelivery earlyDb
              = (False, scheduleNextRetry 2000 earlyDelivery earlyDb)"
    by (simp add: retryDelivery_def retryFailedWebhook_def)
  have r1: "deliveryById (scheduleNextRetry 2000 staleDelivery retryDb) 3
       = Some (staleDelivery\<lparr>wd_status := ''abandoned'',
                             wd_error := Some ''Maximum retry attempts (5) exceeded''\<rparr>)"
    using staleDelivery_row a
    by (simp add: scheduleNextRetry_def Let_def deliveryById_updateDeliveries max_retries_text)
       (simp add: maxRetries_def)
  have r2: "map wd_attempts (webhook_deliveries (scheduleNextRetry 2000 staleDelivery retryDb)) = [4]"
    using a
    by (simp add: scheduleNextRetry_def Let_def updateDeliveries_def retryDb_def emptyDb_def
        maxRetries_def)
  have r3: "deliveryById (scheduleNextRetry 2000 earlyDelivery earlyDb) 4
       = Some (earlyDelivery\<lparr>wd_next_attempt_at := Some 242000, wd_attempts := 2\<rparr>)"
    using earlyDelivery_row b n
    by (simp add: scheduleNextRetry_def Let_def deliveryById_updateDeliveries maxRetries_def)
  from a b r1 r2 r3 show ?thesis by (simp add: s1 s2)
qed

text \<open>
  C7. Processing is idempotent per event id: when the event id of the parsed payload is
  already in \<^verbatim>\<open>webhook_events\<close>, the handler leaves the whole store as it is (no event, no
  delivery row, no payment update), and a request that passes the signature check is
  answered 200 \<^verbatim>\<open>Event already processed\<close>. So a second delivery of an event that was
  processed changes nothing.
\<close>

theorem duplicate_event_is_noop:
  "(we_parse env (wr_body req) = Some webhookData
      \<and> webhook_events s (wp_event_id webhookData) \<noteq> None \<longrightarrow>
        snd (webhooksHandler env req s) = s
      \<and> (wr_method req = ''POST'' \<and> wr_signature req = Some sg \<and> sg \<noteq> []
           \<and> we_secret env = Some secret \<and> secret \<noteq> []
           \<and> verifyHMACSignature (we_hmac env) (wr_body req) sg secret \<longrightarrow>
           fst (webhooksHandler env req s) = (200, messageBody ''Event already processed'')))
   \<and> (fst (webhooksHandler env1 req1 t) = (200, messageBody ''Webhook processed successfully'')
        \<and> we_parse env1 (wr_body req1) = Some first
        \<and> we_parse env (wr_body req) = Some webhookData
        \<and> wp_event_id webhookData = wp_event_id first \<longrightarrow>
        snd (webhooksHandler env req (snd (webhooksHandler env1 req1 t)))
          = snd (webhooksHandler env1 req1 t))"
proof (intro conjI impI)
  assume a: "we_parse env (wr_body req) = Some webhookData
      \<and> webhook_events s (wp_event_id webhookData) \<noteq> None"
  then show "snd (webhooksHandler env req s) = s"
    using duplicate_unchanged[of env req webhookData s] by blast
  assume "wr_method req = ''POST'' \<and> wr_signature req = Some sg \<and> sg \<noteq> []
           \<and> we_secret env = Some secret \<and> secret \<noteq> []
           \<and> verifyHMACSignature (we_hmac env) (wr_body req) sg secret"
  with a show "fst (webhooksHandler env req s) = (200, messageBody ''Event already processed'')"
    using duplicate_response[of env req webhookData s sg secret] by blast
next
  assume b: "fst (webhooksHandler env1 req1 t) = (200, messageBody ''Webhook processed successfully'')
        \<and> we_parse env1 (wr_body req1) = Some first
        \<and> we_parse env (wr_body req) = Some webhookData
        \<and> wp_event_id webhookData = wp_event_id first"
  then have "webhook_events (snd (webhooksHandler env1 req1 t)) (wp_event_id first) \<noteq> None"
    using handler_processed_stores[of env1 req1 t first] by blast
  with b show "snd (webhooksHandler env req (snd (webhooksHandler env1 req1 t)))
          = snd (webhooksHandler env1 req1 t)"
    using duplicate_unchanged[of env req webhookData "snd (webhooksHandler env1 req1 t)"] by simp
qed

lemma first_delivery_processed:
  "webhooksHandler whEnvOk whReq payDb =
     ((200, messageBody ''Webhook processed successfully''),
      payDb\<lparr>payments := [pendingPayment\<lparr>p_status := ''succeeded'', p_gateway_ref := None,
                                        p_metadata := [(''payment_id'', JStr ''pay_1'')]\<rparr>],
            webhook_events := [''evt_1'' \<mapsto>
               (newWebhookEvent ''e1'' ''sha256=0aff'' (the (toyParse ''{}'')))
                 \<lparr>ev_processed := True, ev_processed_at := Some 1000\<rparr>],
            webhook_deliveries :=
               [(newDelivery 7 1000 ''sha256=0aff'' (the (toyParse ''{}'')))
                  \<lparr>wd_status := ''delivered'', wd_delivered_at := Some 1000\<rparr>]\<rparr>)"
  by (simp add: webhooksHandler_def storeAndProcess_def Let_def truthy_def whEnvOk_def whEnv_def
      whReq_def payDb_def emptyDb_def toy_signature_valid toy_parse processWebhookEvent_def
      handlePaymentSucceeded_def updatePaymentsByExternalId_def templateText_def
      gatewayRefUpdate_def pendingPayment_def
      insertEvent_def insertDelivery_def onProcessed_def markProcessed_def updateDeliveries_def
      newWebhookEvent_def newDelivery_def fun_eq_iff)

theorem duplicate_event_is_noop_witness:
  "fst (webhooksHandler whEnvOk whReq payDb) = (200, messageBody ''Webhook processed successfully'')
   \<and> map p_status (payments (snd (webhooksHandler whEnvOk whReq payDb))) = [''succeeded'']
   \<and> webhooksHandler whEnv whReq (snd (webhooksHandler whEnvOk whReq payDb))
       = ((200, messageBody ''Event already processed''), snd (webhooksHandler whEnvOk whReq payDb))"
proof -
  let ?ev = "\<lparr>wp_event_type = ''payment.succeeded'', wp_data = [(''payment_id'', JStr ''pay_1'')],
              wp_timestamp = ''2025-01-01T00:00:00Z'', wp_event_id = ''evt_1''\<rparr>"
  let ?s1 = "snd (webhooksHandler whEnvOk whReq payDb)"
  have h1: "fst (webhooksHandler whEnvOk whReq payDb) = (200, messageBody ''Webhook processed successfully'')"
    by (simp add: first_delivery_processed)
  have h2: "map p_status (payments ?s1) = [''succeeded'']"
    by (simp add: first_delivery_processed)
  have h3: "we_parse whEnvOk (wr_body whReq) = Some ?ev" "we_parse whEnv (wr_body whReq) = Some ?ev"
    by (simp_all add: whEnvOk_def whEnv_def whReq_def toy_parse)
  have h4: "webhook_events ?s1 (wp_event_id ?ev) \<noteq> None"
    by (simp add: first_delivery_processed)
  have h5: "wr_method whReq = ''POST'' \<and> wr_signature whReq = Some ''sha256=0aff'' \<and> ''sha256=0aff'' \<noteq> []
           \<and> we_secret whEnv = Some ''k'' \<and> ''k'' \<noteq> []
           \<and> verifyHMACSignature (we_hmac whEnv) (wr_body whReq) ''sha256=0aff'' ''k''"
    by (simp add: whReq_def whEnv_def toy_signature_valid)
  from duplicate_event_is_noop[where env = whEnv and req = whReq and webhookData = ?ev and s = ?s1
      and sg = "''sha256=0aff''" and secret = "''k''" and ?env1.0 = whEnvOk and ?req1.0 = whReq
      and t = payDb and first = ?ev] h3 h4 h5
  have "snd (webhooksHandler whEnv whReq ?s1) = ?s1
        \<and> fst (webhooksHandler whEnv whReq ?s1) = (200, messageBody ''Event already processed'')"
    by blast
  then have "webhooksHandler whEnv whReq ?s1 = ((200, messageBody ''Event already processed''), ?s1)"
    by (metis prod.collapse)
  with h1 h2 show ?thesis by blast
qed

section \<open>Properties of the payments function\<close>

lemma releaseKey_ledger:
  "idempotency_keys (releaseKey k body code s) =
     (\<lambda>k'. if k' = k then map_option (\<lambda>r. r\<lparr>ik_response := Some body, ik_status_code := Some code,
                                              ik_locked := False\<rparr>) (idempotency_keys s k')
           else idempotency_keys s k')"
  by (simp add: releaseKey_def)

lemma releaseKey_tables [simp]:
  "payments (releaseKey k body code s) = payments s"
  "transactions (releaseKey k body code s) = transactions s"
  by (simp_all add: releaseKey_def)

lemma release_tables [simp]:
  "payments (release env k body code s) = payments s"
  "transactions (release env k body code s) = transactions s"
  by (simp_all add: release_def)

lemma release_cong:
  assumes "idempotency_keys s = idempotency_keys t"
  shows "idempotency_keys (release env k body code s) = idempotency_keys (release env k body code t)"
proof (cases "pe_releaseError env")
  case True
  then show ?thesis using assms by (simp add: release_def)
next
  case False
  have "idempotency_keys (releaseKey k body code s) = idempotency_keys (releaseKey k body code t)"
    unfolding releaseKey_ledger assms by (rule refl)
  with False show ?thesis by (simp add: release_def)
qed

lemma release_accepted:
  assumes "\<not> pe_releaseError env" "idempotency_keys s k = Some r"
  shows "idempotency_keys (release env k body code s) k
           = Some (r\<lparr>ik_response := Some body, ik_status_code := Some code, ik_locked := False\<rparr>)"
  using assms by (simp add: release_def releaseKey_ledger)

lemma release_rejected:
  assumes "pe_releaseError env"
  shows "release env k body code s = s"
  using assms by (simp add: release_def)

lemma gateway_steps_ledger [simp]:
  "idempotency_keys (updateWithGatewayResult env b p s) = idempotency_keys s"
  "idempotency_keys (recordTransaction env b p s) = idempotency_keys s"
  by (simp_all add: updateWithGatewayResult_def recordTransaction_def)

lemma afterGateway_ledger [simp]:
  "idempotency_keys (afterGateway env b p s) = idempotency_keys s"
  by (simp add: afterGateway_def)

lemma afterGateway_ids:
  "map p_id (payments (afterGateway env b p s)) = map p_id (payments s) @ [p_id p]"
  by (simp add: afterGateway_def updateWithGatewayResult_def recordTransaction_def o_def)

lemma afterGateway_currencies:
  "map p_currency (payments (afterGateway env b p s)) = map p_currency (payments s) @ [p_currency p]"
  by (simp add: afterGateway_def updateWithGatewayResult_def recordTransaction_def o_def)

lemma createPayment_insert_rejected:
  assumes "pe_paymentInsert env = Inl e"
  shows "createPayment env k b s =
           onCreateError env k (''Failed to create payment: '' @
               (case e of Some m \<Rightarrow> m | None \<Rightarrow> ''unknown error'')) s"
  using assms by (simp add: createPayment_def)

lemma createPayment_audit_throws:
  assumes "pe_paymentInsert env = Inr (newId, createdAt)" "pe_auditThrows env = Some m"
  shows "createPayment env k b s =
           onCreateError env k m (afterGateway env b (newPayment env k b newId createdAt) s)"
  using assms by (simp add: createPayment_def Let_def)

lemma createPayment_created:
  assumes "pe_paymentInsert env = Inr (newId, createdAt)" "pe_auditThrows env = None"
  shows "createPayment env k b s =
           ((201, responseBodyOf env b (newPayment env k b newId createdAt)),
            release env k (responseBodyOf env b (newPayment env k b newId createdAt)) 201
              (afterGateway env b (newPayment env k b newId createdAt) s),
            [Release k (responseBodyOf env b (newPayment env k b newId createdAt)) 201])"
  using assms by (simp add: createPayment_def Let_def)

lemma createPayment_released:
  "\<exists>code body. fst (createPayment env k b s) = (code, body)
      \<and> (code = 201 \<or> code = 400 \<and> (\<exists>m. body = errorBody m))
      \<and> jsonTruthy body
      \<and> snd (snd (createPayment env k b s)) = [Release k body code]
      \<and> idempotency_keys (fst (snd (createPayment env k b s)))
          = idempotency_keys (release env k body code s)"
proof (cases "pe_paymentInsert env")
  case (Inl e)
  from createPayment_insert_rejected[OF this] show ?thesis
    by (simp add: onCreateError_def errorBody_def)
next
  case (Inr row)
  obtain newId createdAt where row: "row = (newId, createdAt)" by (cases row)
  let ?p = "newPayment env k b newId createdAt"
  have led: "idempotency_keys (afterGateway env b ?p s) = idempotency_keys s" by simp
  show ?thesis
  proof (cases "pe_auditThrows env")
    case None
    have "jsonTruthy (responseBodyOf env b ?p)" by (simp add: responseBodyOf_def)
    with createPayment_created[OF Inr[unfolded row] None, of k b s] release_cong[OF led]
    show ?thesis by simp
  next
    case (Some m)
    have "jsonTruthy (errorBody m)" by (simp add: errorBody_def)
    with createPayment_audit_throws[OF Inr[unfolded row] Some, of k b s] release_cong[OF led]
    show ?thesis by (auto simp: onCreateError_def)
  qed
qed

lemma lockKey_ledger:
  "\<exists>r. idempotency_keys (lockKey now k h s) k = Some r \<and> ik_locked r \<and> ik_request_hash r = h"
  by (simp add: lockKey_def split: option.splits)

lemma lockKey_tables [simp]:
  "payments (lockKey now k h s) = payments s"
  "transactions (lockKey now k h s) = transactions s"
  by (simp_all add: lockKey_def)

lemma handler_proceeds:
  assumes "beforeLock env req s = Proceed key body hash" "\<not> pe_lockError env"
  shows "paymentsHandler env req s =
           (case createPayment env key body (lockKey (pe_now env) key hash s) of
              (r, s', calls) \<Rightarrow> (Replied r, s', Upsert key hash # calls))"
  using assms by (simp add: paymentsHandler_def)

lemma handler_returns:
  assumes "beforeLock env req s = Return r"
  shows "paymentsHandler env req s = (Replied r, s, [])"
  using assms by (simp add: paymentsHandler_def)

lemma handler_insert_rejected:
  assumes "beforeLock env req s = Proceed key body hash" "\<not> pe_lockError env"
      and "pe_paymentInsert env = Inl (Some m)"
  shows "paymentsHandler env req s =
           (Replied (400, errorBody (''Failed to create payment: '' @ m)),
            release env key (errorBody (''Failed to create payment: '' @ m)) 400
              (lockKey (pe_now env) key hash s),
            [Upsert key hash, Release key (errorBody (''Failed to create payment: '' @ m)) 400])"
  unfolding handler_proceeds[OF assms(1,2)] createPayment_insert_rejected[OF assms(3)]
  by (simp add: onCreateError_def)

lemma handler_audit_throws:
  assumes "beforeLock env req s = Proceed key body hash" "\<not> pe_lockError env"
      and "pe_paymentInsert env = Inr (newId, createdAt)" "pe_auditThrows env = Some m"
  shows "paymentsHandler env req s =
           (Replied (400, errorBody m),
            release env key (errorBody m) 400
              (afterGateway env body (newPayment env key body newId createdAt)
                 (lockKey (pe_now env) key hash s)),
            [Upsert key hash, Release key (errorBody m) 400])"
  unfolding handler_proceeds[OF assms(1,2)] createPayment_audit_throws[OF assms(3,4)]
  by (simp add: onCreateError_def)

text \<open>
  An execution that locks the key issues one release of it, after the upsert and with
  the response it returns, on the success path and on every exception inside \<^verbatim>\<open>try\<close>.
  Whether the key is unlocked is the store's answer to that update: accepted, the
  record holds the response with \<^verbatim>\<open>locked\<close> false; rejected, the record stays locked.
\<close>

lemma release_issued_once:
  assumes "beforeLock env req s = Proceed key body hash" "\<not> pe_lockError env"
  shows "\<exists>code resp r0.
           replyOf (paymentsHandler env req s) = Replied (code, resp)
         \<and> (code = 201 \<or> code = 400 \<and> (\<exists>m. resp = errorBody m))
         \<and> jsonTruthy resp
         \<and> callsOf (paymentsHandler env req s) = [Upsert key hash, Release key resp code]
         \<and> idempotency_keys (lockKey (pe_now env) key hash s) key = Some r0
         \<and> ik_locked r0 \<and> ik_request_hash r0 = hash
         \<and> idempotency_keys (storeOf (paymentsHandler env req s)) key
             = Some (if pe_releaseError env then r0
                     else r0\<lparr>ik_response := Some resp, ik_status_code := Some code,
                             ik_locked := False\<rparr>)"
proof -
  let ?sl = "lockKey (pe_now env) key hash s"
  from createPayment_released[of env key body ?sl] obtain code resp where
    cp: "fst (createPayment env key body ?sl) = (code, resp)"
        "code = 201 \<or> code = 400 \<and> (\<exists>m. resp = errorBody m)"
        "jsonTruthy resp"
        "snd (snd (createPayment env key body ?sl)) = [Release key resp code]"
        "idempotency_keys (fst (snd (createPayment env key body ?sl)))
           = idempotency_keys (release env key resp code ?sl)"
    by blast
  from lockKey_ledger[of "pe_now env" key hash s] obtain r0 where
    r0: "idempotency_keys ?sl key = Some r0" "ik_locked r0" "ik_request_hash r0 = hash" by blast
  have rel: "idempotency_keys (release env key resp code ?sl) key
        = Some (if pe_releaseError env then r0
                else r0\<lparr>ik_response := Some resp, ik_status_code := Some code, ik_locked := False\<rparr>)"
    using r0(1) by (simp add: release_def releaseKey_ledger)
  obtain rr ss cc where t: "createPayment env key body ?sl = (rr, ss, cc)"
    by (cases "createPayment env key body ?sl") auto
  have h: "paymentsHandler env req s = (Replied rr, ss, Upsert key hash # cc)"
    unfolding handler_proceeds[OF assms] t by simp
  from cp t have e: "rr = (code, resp)" "cc = [Release key resp code]"
      "idempotency_keys ss = idempotency_keys (release env key resp code ?sl)"
    by simp_all
  show ?thesis
    apply (intro exI[of _ code] exI[of _ resp] exI[of _ r0])
    using cp(2,3) r0 rel e by (simp add: h replyOf_def callsOf_def storeOf_def)
qed

lemma beforeLock_ProceedD:
  assumes "beforeLock env req s = Proceed key body hash"
  shows "rq_method req = ''POST''" "rq_idempotency_key req = Some key" "key \<noteq> []"
        "rq_body req = JsonValue body" "\<not> invalidAmount body" "hash = requestHashOf env body"
        "checkExisting (if pe_keySelectErr env then None else idempotency_keys s key) hash = None"
  using assms
  by (auto simp: beforeLock_def Let_def truthy_def split: if_splits option.splits json_body.splits)

lemma beforeLock_valid:
  assumes "rq_method req = ''POST''" "rq_idempotency_key req = Some key" "key \<noteq> []"
          "rq_body req = JsonValue body" "\<not> invalidAmount body"
  shows "beforeLock env req s =
           (case checkExisting (if pe_keySelectErr env then None else idempotency_keys s key)
                   (requestHashOf env body) of
              Some r \<Rightarrow> Return r
            | None \<Rightarrow> Proceed key body (requestHashOf env body))"
  using assms by (simp add: beforeLock_def Let_def truthy_def)

text \<open>
  When the read of the ledger succeeds: a repeated request gets the stored response and
  the store is not written, and a body of another hash gets the 409.
\<close>

lemma replay_when_read_succeeds:
  assumes "beforeLock env1 req s = Proceed key body hash" "\<not> pe_lockError env1"
      and "\<not> pe_releaseError env1"
      and "\<not> pe_keySelectErr env2" "requestHashOf env2 body = requestHashOf env1 body"
  shows "paymentsHandler env2 req (storeOf (paymentsHandler env1 req s))
         = (replyOf (paymentsHandler env1 req s), storeOf (paymentsHandler env1 req s), [])"
proof -
  let ?s1 = "storeOf (paymentsHandler env1 req s)"
  from release_issued_once[OF assms(1,2)] assms(3) obtain code resp r0 where
    c: "replyOf (paymentsHandler env1 req s) = Replied (code, resp)" "jsonTruthy resp"
       "ik_request_hash r0 = hash"
       "idempotency_keys ?s1 key
          = Some (r0\<lparr>ik_response := Some resp, ik_status_code := Some code, ik_locked := False\<rparr>)"
    by auto
  note d = beforeLock_ProceedD[OF assms(1)]
  have "checkExisting (idempotency_keys ?s1 key) (requestHashOf env2 body) = Some (code, resp)"
    using c d(6) assms(5) by (simp add: checkExisting_def)
  then have "beforeLock env2 req ?s1 = Return (code, resp)"
    using beforeLock_valid[OF d(1-5), of env2 ?s1] assms(4) by simp
  from handler_returns[OF this] c(1) show ?thesis by simp
qed

lemma conflict_when_read_succeeds:
  assumes "rq_method req = ''POST''" "rq_idempotency_key req = Some key" "key \<noteq> []"
          "rq_body req = JsonValue body" "\<not> invalidAmount body"
      and "\<not> pe_keySelectErr env" "idempotency_keys s key = Some k"
      and "ik_request_hash k \<noteq> []" "ik_request_hash k \<noteq> requestHashOf env body"
  shows "paymentsHandler env req s = (Replied (409, conflictBody), s, [])"
proof -
  have "checkExisting (Some k) (requestHashOf env body) = Some (409, conflictBody)"
    using assms(8,9) by (simp add: checkExisting_def)
  then have "beforeLock env req s = Return (409, conflictBody)"
    using beforeLock_valid[OF assms(1-5), of env s] assms(6,7) by simp
  from handler_returns[OF this] show ?thesis .
qed

text \<open>When the read fails, the handler goes on to the upsert whatever the ledger holds.\<close>

lemma beforeLock_read_error:
  assumes "rq_method req = ''POST''" "rq_idempotency_key req = Some key" "key \<noteq> []"
          "rq_body req = JsonValue body" "\<not> invalidAmount body" "pe_keySelectErr env"
  shows "beforeLock env req s = Proceed key body (requestHashOf env body)"
  using beforeLock_valid[OF assms(1-5), of env s] assms(6) by (simp add: checkExisting_def)

text \<open>
  A missing, zero or negative \<^verbatim>\<open>amount_cents\<close> is answered 400 \<^verbatim>\<open>Invalid amount\<close> with no
  write on the ledger and the store as it was.
\<close>

lemma invalid_amount_rejected:
  assumes "rq_method req = ''POST''" "truthy (rq_idempotency_key req)"
          "rq_body req = JsonValue body" "invalidAmount body"
  shows "paymentsHandler env req s = (Replied (400, errorBody ''Invalid amount''), s, [])"
  using assms by (simp add: paymentsHandler_def beforeLock_def)

text \<open>A \<^verbatim>\<open>null\<close> body is answered 500, and an \<^verbatim>\<open>OPTIONS\<close> request makes the handler throw.\<close>

lemma null_body_is_500:
  assumes "rq_method req = ''POST''" "truthy (rq_idempotency_key req)" "rq_body req = JsonNull"
  shows "paymentsHandler env req s = (Replied (500, errorBody ''Internal server error''), s, [])"
  using assms by (simp add: paymentsHandler_def beforeLock_def)

lemma options_throws:
  assumes "rq_method req = ''OPTIONS''"
  shows "paymentsHandler env req s = (Threw, s, [])"
  using assms by (simp add: paymentsHandler_def beforeLock_def)

subsection \<open>The handler on concrete requests\<close>

lemma hex_08: "hexOfBytes [8] = ''08''"
  by code_simp

lemma hex_0c: "hexOfBytes [12] = ''0c''"
  by code_simp

lemma toy_hash_usd:
  assumes "pe_sha256 env = toySha" "pe_stringify env = toyStringify"
  shows "requestHashOf env body10000 = ''08''"
proof -
  have "toyStringify body10000 = ''largeUSD''"
    by (simp add: toyStringify_def body10000_def currencyOf_def)
  moreover have "toySha ''largeUSD'' = [8]" by (simp add: toySha_def)
  ultimately show ?thesis by (simp add: requestHashOf_def sha256Hex_def hex_08 assms)
qed

lemma toy_hash_invalid:
  assumes "pe_sha256 env = toySha" "pe_stringify env = toyStringify"
  shows "requestHashOf env bodyInvalidCurrency = ''0c''"
proof -
  have "toyStringify bodyInvalidCurrency = ''largeINVALID''"
    by (simp add: toyStringify_def bodyInvalidCurrency_def body10000_def currencyOf_def)
  moreover have "toySha ''largeINVALID'' = [12]" by (simp add: toySha_def)
  ultimately show ?thesis by (simp add: requestHashOf_def sha256Hex_def hex_0c assms)
qed

lemma payEnv_fields:
  "pe_sha256 payEnv = toySha" "pe_stringify payEnv = toyStringify"
  "\<not> pe_keySelectErr payEnv" "\<not> pe_lockError payEnv" "pe_now payEnv = 42"
  "pe_paymentInsert payEnv = Inr (''p1'', 42)" "pe_auditThrows payEnv = Some auditTypeError"
  "\<not> pe_releaseError payEnv" "\<not> pe_txnError payEnv"
  by (simp_all add: payEnv_def)

lemma outageEnv_fields:
  "pe_sha256 outageEnv = toySha" "pe_stringify outageEnv = toyStringify"
  "\<not> pe_keySelectErr outageEnv" "\<not> pe_lockError outageEnv" "pe_now outageEnv = 42"
  "pe_paymentInsert outageEnv = Inl (Some ''connection refused'')" "pe_releaseError outageEnv"
  by (simp_all add: outageEnv_def payEnv_def)

lemma readErrorEnv_fields:
  "pe_sha256 readErrorEnv = toySha" "pe_stringify readErrorEnv = toyStringify"
  "pe_keySelectErr readErrorEnv" "\<not> pe_lockError readErrorEnv" "pe_now readErrorEnv = 99"
  "pe_paymentInsert readErrorEnv = Inr (''p2'', 99)"
  "pe_auditThrows readErrorEnv = Some auditTypeError" "\<not> pe_releaseError readErrorEnv"
  by (simp_all add: readErrorEnv_def payEnv_def)

lemma readErrorUniqueEnv_fields:
  "pe_sha256 readErrorUniqueEnv = toySha" "pe_stringify readErrorUniqueEnv = toyStringify"
  "pe_keySelectErr readErrorUniqueEnv" "\<not> pe_lockError readErrorUniqueEnv"
  "pe_now readErrorUniqueEnv = 99"
  "pe_paymentInsert readErrorUniqueEnv
     = Inl (Some ''duplicate key value violates unique constraint'')"
  "\<not> pe_releaseError readErrorUniqueEnv"
  by (simp_all add: readErrorUniqueEnv_def readErrorEnv_def payEnv_def)

lemma payReqOf_fields:
  "rq_method (payReqOf b) = ''POST''" "rq_idempotency_key (payReqOf b) = Some ''K1''"
  "''K1'' \<noteq> []" "rq_body (payReqOf b) = JsonValue b"
  by (simp_all add: payReqOf_def)

lemma valid_bodies:
  "\<not> invalidAmount body10000" "\<not> invalidAmount bodyInvalidCurrency"
  by (simp_all add: invalidAmount_def body10000_def bodyInvalidCurrency_def)

lemma beforeLock_fresh:
  assumes "\<not> invalidAmount b" "idempotency_keys s ''K1'' = None"
  shows "beforeLock env (payReqOf b) s = Proceed ''K1'' b (requestHashOf env b)"
  using beforeLock_valid[OF payReqOf_fields assms(1), of env s] assms(2)
  by (simp add: checkExisting_def)

lemma beforeLock_unread:
  assumes "\<not> invalidAmount b" "pe_keySelectErr env"
  shows "beforeLock env (payReqOf b) s = Proceed ''K1'' b (requestHashOf env b)"
  using beforeLock_read_error[OF payReqOf_fields assms] .

lemma fresh_row:
  "idempotency_keys (lockKey now ''K1'' h emptyDb) ''K1''
     = Some \<lparr>ik_key = ''K1'', ik_endpoint = ''/payments'', ik_method = ''POST'',
             ik_request_hash = h, ik_response = None, ik_status_code = None,
             ik_locked = True, ik_last_used_at = now\<rparr>"
  by (simp add: lockKey_def emptyDb_def)

lemma emptyDb_tables:
  "payments emptyDb = []" "transactions emptyDb = []" "idempotency_keys emptyDb k = None"
  by (simp_all add: emptyDb_def)

lemma afterGateway_txn_currencies:
  assumes "\<not> pe_txnError env"
  shows "map t_currency (transactions (afterGateway env b p s))
           = map t_currency (transactions s) @ [currencyOf b]"
  using assms by (simp add: afterGateway_def updateWithGatewayResult_def recordTransaction_def)

lemma released_response:
  assumes "\<not> pe_releaseError env"
  shows "map_option ik_response (idempotency_keys (release env k body code (lockKey now k h s)) k)
           = Some (Some body)"
proof -
  from lockKey_ledger[of now k h s] obtain r where
    "idempotency_keys (lockKey now k h s) k = Some r" by blast
  from release_accepted[OF assms this] show ?thesis by simp
qed

lemma first_call:
  "paymentsHandler payEnv payReq emptyDb =
     (Replied (400, errorBody auditTypeError),
      release payEnv ''K1'' (errorBody auditTypeError) 400
        (afterGateway payEnv body10000 (newPayment payEnv ''K1'' body10000 ''p1'' 42)
           (lockKey 42 ''K1'' ''08'' emptyDb)),
      [Upsert ''K1'' ''08'', Release ''K1'' (errorBody auditTypeError) 400])"
proof -
  have "beforeLock payEnv payReq emptyDb = Proceed ''K1'' body10000 ''08''"
    using beforeLock_fresh[OF valid_bodies(1) emptyDb_tables(3), of payEnv]
    by (simp add: payReq_def toy_hash_usd[OF payEnv_fields(1,2)])
  from handler_audit_throws[OF this payEnv_fields(4,6,7)] show ?thesis
    by (simp add: payEnv_fields(5))
qed

lemma first_call_store:
  "map p_id (payments (storeOf (paymentsHandler payEnv payReq emptyDb))) = [''p1'']"
  by (simp add: first_call storeOf_def afterGateway_ids emptyDb_tables newPayment_def)

text \<open>
  C2. An exception inside \<^verbatim>\<open>try\<close> does not always end with the key released. The store
  accepts the upsert that locks key K1 and then rejects both the insert of the payment and
  the update of the ledger. The handler answers 400 with the insert's message; it has
  issued one release (the only write on the ledger after the upsert), whose result it
  does not look at, and the record of K1 is as the upsert left it: \<^verbatim>\<open>locked\<close> true, no
  response. A later request with the same key and body, on a healthy store, is answered
  409 \<^verbatim>\<open>Request is being processed\<close> and writes nothing, so the key stays locked.
\<close>

theorem rejected_release_leaves_key_locked:
  "replyOf (paymentsHandler outageEnv payReq emptyDb)
     = Replied (400, errorBody ''Failed to create payment: connection refused'')
   \<and> callsOf (paymentsHandler outageEnv payReq emptyDb)
     = [Upsert ''K1'' ''08'',
        Release ''K1'' (errorBody ''Failed to create payment: connection refused'') 400]
   \<and> idempotency_keys (storeOf (paymentsHandler outageEnv payReq emptyDb)) ''K1''
     = Some \<lparr>ik_key = ''K1'', ik_endpoint = ''/payments'', ik_method = ''POST'',
             ik_request_hash = ''08'', ik_response = None, ik_status_code = None,
             ik_locked = True, ik_last_used_at = 42\<rparr>
   \<and> paymentsHandler payEnv payReq (storeOf (paymentsHandler outageEnv payReq emptyDb))
     = (Replied (409, errorBody ''Request is being processed''),
        storeOf (paymentsHandler outageEnv payReq emptyDb), [])"
proof -
  let ?m = "''Failed to create payment: connection refused''"
  let ?s1 = "lockKey 42 ''K1'' ''08'' emptyDb"
  have "beforeLock outageEnv payReq emptyDb = Proceed ''K1'' body10000 ''08''"
    using beforeLock_fresh[OF valid_bodies(1) emptyDb_tables(3), of outageEnv]
    by (simp add: payReq_def toy_hash_usd[OF outageEnv_fields(1,2)])
  from handler_insert_rejected[OF this outageEnv_fields(4,6)]
  have f: "paymentsHandler outageEnv payReq emptyDb =
             (Replied (400, errorBody ?m), ?s1, [Upsert ''K1'' ''08'', Release ''K1'' (errorBody ?m) 400])"
    by (simp add: outageEnv_fields(5) release_rejected[OF outageEnv_fields(7)])
  have st: "storeOf (paymentsHandler outageEnv payReq emptyDb) = ?s1"
    by (simp add: f storeOf_def)
  have "checkExisting (idempotency_keys ?s1 ''K1'') (requestHashOf payEnv body10000)
          = Some (409, errorBody ''Request is being processed'')"
    by (simp add: fresh_row checkExisting_def toy_hash_usd[OF payEnv_fields(1,2)])
  then have "beforeLock payEnv payReq ?s1 = Return (409, errorBody ''Request is being processed'')"
    using beforeLock_valid[OF payReqOf_fields valid_bodies(1), of payEnv ?s1] payEnv_fields(3)
    by (simp add: payReq_def)
  from handler_returns[OF this]
  have "paymentsHandler payEnv payReq ?s1
          = (Replied (409, errorBody ''Request is being processed''), ?s1, [])" .
  with f st fresh_row[of 42 "''08''"] show ?thesis
    by (simp add: replyOf_def callsOf_def)
qed

text \<open>
  C3. A repeated request does not always get the stored response without a second
  payment. The first call with key K1 completes: payment \<open>p1\<close> is stored and the ledger
  holds the response, unlocked. The second call, same key and body, finds the ledger
  unreadable (\<^verbatim>\<open>keySelectErr\<close> set, which the handler only logs): it locks the key again
  and inserts a second payment \<open>p2\<close>. On a store that refuses a second payment with the
  same \<^verbatim>\<open>idempotency_key\<close>, the same call is answered with the insert's error, not the
  stored response, and that error replaces the stored response.
\<close>

theorem unread_ledger_repeats_payment:
  "replyOf (paymentsHandler payEnv payReq emptyDb) = Replied (400, errorBody auditTypeError)
   \<and> map p_id (payments (storeOf (paymentsHandler payEnv payReq emptyDb))) = [''p1'']
   \<and> map_option ik_response
       (idempotency_keys (storeOf (paymentsHandler payEnv payReq emptyDb)) ''K1'')
     = Some (Some (errorBody auditTypeError))
   \<and> callsOf (paymentsHandler readErrorEnv payReq
                (storeOf (paymentsHandler payEnv payReq emptyDb)))
     = [Upsert ''K1'' ''08'', Release ''K1'' (errorBody auditTypeError) 400]
   \<and> map p_id (payments (storeOf (paymentsHandler readErrorEnv payReq
                                    (storeOf (paymentsHandler payEnv payReq emptyDb)))))
     = [''p1'', ''p2'']
   \<and> replyOf (paymentsHandler readErrorUniqueEnv payReq
                (storeOf (paymentsHandler payEnv payReq emptyDb)))
     = Replied (400, errorBody
         ''Failed to create payment: duplicate key value violates unique constraint'')
   \<and> map_option ik_response
       (idempotency_keys (storeOf (paymentsHandler readErrorUniqueEnv payReq
                                     (storeOf (paymentsHandler payEnv payReq emptyDb)))) ''K1'')
     = Some (Some (errorBody
         ''Failed to create payment: duplicate key value violates unique constraint''))"
proof -
  let ?s1 = "storeOf (paymentsHandler payEnv payReq emptyDb)"
  let ?m = "''Failed to create payment: duplicate key value violates unique constraint''"
  have a: "replyOf (paymentsHandler payEnv payReq emptyDb) = Replied (400, errorBody auditTypeError)"
    by (simp add: first_call replyOf_def)
  have b: "map_option ik_response (idempotency_keys ?s1 ''K1'') = Some (Some (errorBody auditTypeError))"
    using release_accepted[OF payEnv_fields(8), of _ "''K1''"]
    by (simp add: first_call storeOf_def fresh_row)
  have "beforeLock readErrorEnv payReq ?s1 = Proceed ''K1'' body10000 ''08''"
    using beforeLock_unread[OF valid_bodies(1) readErrorEnv_fields(3), of ?s1]
    by (simp add: payReq_def toy_hash_usd[OF readErrorEnv_fields(1,2)])
  from handler_audit_throws[OF this readErrorEnv_fields(4,6,7)]
  have s: "paymentsHandler readErrorEnv payReq ?s1 =
             (Replied (400, errorBody auditTypeError),
              release readErrorEnv ''K1'' (errorBody auditTypeError) 400
                (afterGateway readErrorEnv body10000
                   (newPayment readErrorEnv ''K1'' body10000 ''p2'' 99)
                   (lockKey (pe_now readErrorEnv) ''K1'' ''08'' ?s1)),
              [Upsert ''K1'' ''08'', Release ''K1'' (errorBody auditTypeError) 400])" .
  have c: "callsOf (paymentsHandler readErrorEnv payReq ?s1)
             = [Upsert ''K1'' ''08'', Release ''K1'' (errorBody auditTypeError) 400]"
    by (simp add: s callsOf_def)
  have d: "map p_id (payments (storeOf (paymentsHandler readErrorEnv payReq ?s1))) = [''p1'', ''p2'']"
    by (simp add: s storeOf_def[of "(x, y)" for x y] afterGateway_ids first_call_store newPayment_def)
  have "beforeLock readErrorUniqueEnv payReq ?s1 = Proceed ''K1'' body10000 ''08''"
    using beforeLock_unread[OF valid_bodies(1) readErrorUniqueEnv_fields(3), of ?s1]
    by (simp add: payReq_def toy_hash_usd[OF readErrorUniqueEnv_fields(1,2)])
  from handler_insert_rejected[OF this readErrorUniqueEnv_fields(4,6)]
  have t: "paymentsHandler readErrorUniqueEnv payReq ?s1 =
             (Replied (400, errorBody ?m),
              release readErrorUniqueEnv ''K1'' (errorBody ?m) 400
                (lockKey (pe_now readErrorUniqueEnv) ''K1'' ''08'' ?s1),
              [Upsert ''K1'' ''08'', Release ''K1'' (errorBody ?m) 400])"
    by simp
  have e: "replyOf (paymentsHandler readErrorUniqueEnv payReq ?s1) = Replied (400, errorBody ?m)"
    by (simp add: t replyOf_def)
  have f: "map_option ik_response
             (idempotency_keys (storeOf (paymentsHandler readErrorUniqueEnv payReq ?s1)) ''K1'')
           = Some (Some (errorBody ?m))"
    using released_response[OF readErrorUniqueEnv_fields(7)]
    by (simp add: t storeOf_def[of "(x, y)" for x y])
  from a first_call_store b c d e f show ?thesis by blast
qed

text \<open>
  C4. A body whose hash differs from the stored one is not always answered 409. The
  ledger holds a locked record of K1 with request hash \<open>05\<close>; the request carries a body of
  hash \<open>08\<close> and the read of the ledger fails. The handler skips the comparison: it is
  answered 400 from the audit call, not 409; the upsert has replaced the stored hash by
  \<open>08\<close>, a payment is stored, and the release has unlocked the record and stored the new
  response.
\<close>

theorem unread_ledger_overwrites_record:
  "map_option ik_request_hash (idempotency_keys lockedDb ''K1'') = Some ''05''
   \<and> map_option ik_locked (idempotency_keys lockedDb ''K1'') = Some True
   \<and> requestHashOf readErrorEnv body10000 = ''08''
   \<and> replyOf (paymentsHandler readErrorEnv payReq lockedDb)
     = Replied (400, errorBody auditTypeError)
   \<and> callsOf (paymentsHandler readErrorEnv payReq lockedDb)
     = [Upsert ''K1'' ''08'', Release ''K1'' (errorBody auditTypeError) 400]
   \<and> idempotency_keys (storeOf (paymentsHandler readErrorEnv payReq lockedDb)) ''K1''
     = Some \<lparr>ik_key = ''K1'', ik_endpoint = ''/payments'', ik_method = ''POST'',
             ik_request_hash = ''08'', ik_response = Some (errorBody auditTypeError),
             ik_status_code = Some 400, ik_locked = False, ik_last_used_at = 99\<rparr>
   \<and> map p_id (payments (storeOf (paymentsHandler readErrorEnv payReq lockedDb))) = [''p2'']"
proof -
  have a: "map_option ik_request_hash (idempotency_keys lockedDb ''K1'') = Some ''05''"
          "map_option ik_locked (idempotency_keys lockedDb ''K1'') = Some True"
    by (simp_all add: lockedDb_def emptyDb_def)
  note h = toy_hash_usd[OF readErrorEnv_fields(1,2)]
  have "beforeLock readErrorEnv payReq lockedDb = Proceed ''K1'' body10000 ''08''"
    using beforeLock_unread[OF valid_bodies(1) readErrorEnv_fields(3), of lockedDb]
    by (simp add: payReq_def h)
  from handler_audit_throws[OF this readErrorEnv_fields(4,6,7)]
  have s: "paymentsHandler readErrorEnv payReq lockedDb =
             (Replied (400, errorBody auditTypeError),
              release readErrorEnv ''K1'' (errorBody auditTypeError) 400
                (afterGateway readErrorEnv body10000
                   (newPayment readErrorEnv ''K1'' body10000 ''p2'' 99)
                   (lockKey 99 ''K1'' ''08'' lockedDb)),
              [Upsert ''K1'' ''08'', Release ''K1'' (errorBody auditTypeError) 400])"
    by (simp add: readErrorEnv_fields(5))
  have l: "idempotency_keys (lockKey 99 ''K1'' ''08'' lockedDb) ''K1''
             = Some \<lparr>ik_key = ''K1'', ik_endpoint = ''/payments'', ik_method = ''POST'',
                     ik_request_hash = ''08'', ik_response = None, ik_status_code = None,
                     ik_locked = True, ik_last_used_at = 99\<rparr>"
    by (simp add: lockKey_def lockedDb_def emptyDb_def)
  have r: "idempotency_keys (storeOf (paymentsHandler readErrorEnv payReq lockedDb)) ''K1''
     = Some \<lparr>ik_key = ''K1'', ik_endpoint = ''/payments'', ik_method = ''POST'',
             ik_request_hash = ''08'', ik_response = Some (errorBody auditTypeError),
             ik_status_code = Some 400, ik_locked = False, ik_last_used_at = 99\<rparr>"
    using release_accepted[OF readErrorEnv_fields(8), of _ "''K1''"]
    by (simp add: s storeOf_def l)
  have "payments lockedDb = []" by (simp add: lockedDb_def emptyDb_def)
  then have p: "map p_id (payments (storeOf (paymentsHandler readErrorEnv payReq lockedDb))) = [''p2'']"
    by (simp add: s storeOf_def afterGateway_ids newPayment_def)
  from a h r p show ?thesis by (simp add: s replyOf_def callsOf_def)
qed

text \<open>
  C8. A request with a positive amount and currency \<^verbatim>\<open>INVALID\<close> is not refused before the
  lock: the handler never looks at the currency. It locks key K1, stores a payment and a
  transaction with that currency, and releases the key. The 400 it answers comes from the
  audit call and is the answer a request in \<^verbatim>\<open>USD\<close> gets as well.
\<close>

theorem unlisted_currency_is_processed:
  "pr_currency bodyInvalidCurrency = Some ''INVALID''
   \<and> callsOf (paymentsHandler payEnv (payReqOf bodyInvalidCurrency) emptyDb)
     = [Upsert ''K1'' ''0c'', Release ''K1'' (errorBody auditTypeError) 400]
   \<and> map p_currency (payments (storeOf (paymentsHandler payEnv (payReqOf bodyInvalidCurrency) emptyDb)))
     = [''INVALID'']
   \<and> map t_currency (transactions (storeOf (paymentsHandler payEnv (payReqOf bodyInvalidCurrency) emptyDb)))
     = [''INVALID'']
   \<and> replyOf (paymentsHandler payEnv (payReqOf bodyInvalidCurrency) emptyDb)
     = Replied (400, errorBody auditTypeError)
   \<and> replyOf (paymentsHandler payEnv payReq emptyDb) = Replied (400, errorBody auditTypeError)"
proof -
  have c: "pr_currency bodyInvalidCurrency = Some ''INVALID''"
          "currencyOf bodyInvalidCurrency = ''INVALID''"
    by (simp_all add: bodyInvalidCurrency_def currencyOf_def)
  have "beforeLock payEnv (payReqOf bodyInvalidCurrency) emptyDb
          = Proceed ''K1'' bodyInvalidCurrency ''0c''"
    using beforeLock_fresh[OF valid_bodies(2) emptyDb_tables(3), of payEnv]
    by (simp add: toy_hash_invalid[OF payEnv_fields(1,2)])
  from handler_audit_throws[OF this payEnv_fields(4,6,7)]
  have s: "paymentsHandler payEnv (payReqOf bodyInvalidCurrency) emptyDb =
             (Replied (400, errorBody auditTypeError),
              release payEnv ''K1'' (errorBody auditTypeError) 400
                (afterGateway payEnv bodyInvalidCurrency
                   (newPayment payEnv ''K1'' bodyInvalidCurrency ''p1'' 42)
                   (lockKey (pe_now payEnv) ''K1'' ''0c'' emptyDb)),
              [Upsert ''K1'' ''0c'', Release ''K1'' (errorBody auditTypeError) 400])" .
  have p: "map p_currency (payments (storeOf (paymentsHandler payEnv (payReqOf bodyInvalidCurrency) emptyDb)))
             = [''INVALID'']"
    by (simp add: s storeOf_def afterGateway_currencies emptyDb_tables newPayment_def c(2))
  have t: "map t_currency (transactions (storeOf (paymentsHandler payEnv (payReqOf bodyInvalidCurrency) emptyDb)))
             = [''INVALID'']"
    by (simp add: s storeOf_def afterGateway_txn_currencies[OF payEnv_fields(9)] emptyDb_tables c(2))
  have u: "replyOf (paymentsHandler payEnv payReq emptyDb) = Replied (400, errorBody auditTypeError)"
    by (simp add: first_call replyOf_def)
  from c(1) p t u show ?thesis by (simp add: s replyOf_def callsOf_def)
qed

section \<open>Properties of the reconciliation engine\<close>

lemma findMatch_find: "findMatch ps r = find (matches r) ps"
  by (induction ps) (simp_all add: matches_def Let_def)

lemma findMatch_None_iff: "findMatch ps r = None \<longleftrightarrow> (\<forall>p \<in> set ps. \<not> matches r p)"
  by (auto simp: findMatch_find find_None_iff)

lemma findMatch_SomeD: "findMatch ps r = Some p \<Longrightarrow> p \<in> set ps \<and> matches r p"
  by (auto simp: findMatch_find find_Some_iff)

lemma recordById_markMatched:
  "recordById (markMatched i pid tbl) j =
     (if i = j
      then map_option (\<lambda>r. r\<lparr>rr_status := Some ''matched'', rr_matched_payment_id := Some pid\<rparr>)
             (recordById tbl j)
      else recordById tbl j)"
  unfolding recordById_def markMatched_def by (induction tbl) auto

lemma find_id_None: "i \<notin> rr_id ` set rs \<Longrightarrow> find (\<lambda>x. rr_id x = i) rs = None"
  by (auto simp: find_None_iff)

lemma matchLoop_table:
  assumes "distinct (map rr_id rs)"
  shows "recordById (fst (matchLoop ps rs tbl m u)) j =
           (case find (\<lambda>r. rr_id r = j) rs of
              None \<Rightarrow> recordById tbl j
            | Some r \<Rightarrow>
                (case findMatch ps r of
                   None \<Rightarrow> recordById tbl j
                 | Some p \<Rightarrow>
                     map_option (\<lambda>x. x\<lparr>rr_status := Some ''matched'',
                                         rr_matched_payment_id := Some (cp_id p)\<rparr>)
                       (recordById tbl j)))"
  using assms
proof (induction rs arbitrary: tbl m u)
  case Nil
  then show ?case by simp
next
  case (Cons r rest)
  from Cons.prems have d: "distinct (map rr_id rest)" and n: "rr_id r \<notin> rr_id ` set rest" by auto
  show ?case
  proof (cases "findMatch ps r")
    case None
    then show ?thesis using Cons.IH[OF d, of tbl m "u + 1"] find_id_None[OF n]
      by (auto split: option.splits)
  next
    case (Some p)
    then show ?thesis
      using Cons.IH[OF d, of "markMatched (rr_id r) (cp_id p) tbl" "m + 1" u] find_id_None[OF n]
      by (auto simp: recordById_markMatched split: option.splits)
  qed
qed

lemma find_in_distinct:
  assumes "distinct (map rr_id tbl)" "r \<in> set tbl"
  shows "find (\<lambda>x. rr_id x = rr_id r) tbl = Some r"
  using assms by (induction tbl) (auto simp: image_iff)

lemma run_completed:
  "runReconciliation (Some uid) False False s =
     (let unmatchedRecords = filter (\<lambda>r. rr_uploaded_by r = Some uid \<and> rr_status r = Some ''unmatched'')
                               (reconciliation_records s);
          ps = filter (\<lambda>p. cp_user_id p = Some uid) (client_payments s);
          res = matchLoop ps unmatchedRecords (reconciliation_records s) 0 0
      in (Completed \<lparr>total_records = length unmatchedRecords, matched = fst (snd res),
                     unmatched = snd (snd res)\<rparr>,
          s\<lparr>reconciliation_records := fst res\<rparr>))"
  by (simp add: runReconciliation_def Let_def split: prod.splits)

lemma run_record:
  assumes "distinct (map rr_id (reconciliation_records s))"
      and "r \<in> set (reconciliation_records s)"
      and "rr_uploaded_by r = Some uid" "rr_status r = Some ''unmatched''"
  shows "recordById (reconciliation_records (snd (runReconciliation (Some uid) False False s))) (rr_id r)
         = Some (case findMatch (filter (\<lambda>p. cp_user_id p = Some uid) (client_payments s)) r of
                   None \<Rightarrow> r
                 | Some p \<Rightarrow> r\<lparr>rr_status := Some ''matched'', rr_matched_payment_id := Some (cp_id p)\<rparr>)"
proof -
  let ?P = "\<lambda>r. rr_uploaded_by r = Some uid \<and> rr_status r = Some ''unmatched''"
  let ?rs = "filter ?P (reconciliation_records s)"
  have d: "distinct (map rr_id ?rs)" using assms(1) by (rule distinct_map_filter)
  have "r \<in> set ?rs" using assms(2-4) by simp
  from find_in_distinct[OF d this] have f: "find (\<lambda>x. rr_id x = rr_id r) ?rs = Some r" .
  have t: "recordById (reconciliation_records s) (rr_id r) = Some r"
    unfolding recordById_def using find_in_distinct[OF assms(1,2)] .
  show ?thesis
    using matchLoop_table[OF d, of _ "reconciliation_records s" 0 0 "rr_id r"] f t
    by (simp add: run_completed Let_def split: option.splits)
qed

lemma run_payments_unchanged:
  "client_payments (snd (runReconciliation user recordsError paymentsError s)) = client_payments s"
  by (simp add: runReconciliation_def Let_def split: option.splits prod.splits)

lemma find_hd_filter: "filter P xs \<noteq> [] \<Longrightarrow> find P xs = Some (hd (filter P xs))"
  by (induction xs) auto

text \<open>
  What the loop does on the rows it is given: an unmatched record of the user ends
  \<^verbatim>\<open>matched\<close> if and only if some payment row of the user has a property \<^verbatim>\<open>amount\<close>
  strictly equal to the record's amount and an external payment id equal to the record's
  external transaction id; the payment it is matched to is such a row, and a record
  without one is left as it was.
\<close>

lemma matched_iff_amount_property:
  assumes "distinct (map rr_id (reconciliation_records s))" "entry \<in> set (reconciliation_records s)"
      and "rr_uploaded_by entry = Some uid" "rr_status entry = Some ''unmatched''"
  shows "\<exists>r'. recordById (reconciliation_records (snd (runReconciliation (Some uid) False False s)))
            (rr_id entry) = Some r'
      \<and> (rr_status r' = Some ''matched'' \<longleftrightarrow>
           (\<exists>p \<in> set (client_payments s). cp_user_id p = Some uid \<and> matches entry p))
      \<and> (rr_status r' = Some ''matched'' \<longrightarrow>
           (\<exists>p \<in> set (client_payments s). cp_user_id p = Some uid
               \<and> rr_matched_payment_id r' = Some (cp_id p) \<and> matches entry p))
      \<and> (rr_status r' \<noteq> Some ''matched'' \<longrightarrow> r' = entry)"
proof -
  let ?ps = "filter (\<lambda>p. cp_user_id p = Some uid) (client_payments s)"
  let ?tbl = "reconciliation_records (snd (runReconciliation (Some uid) False False s))"
  note row = run_record[OF assms]
  show ?thesis
  proof (cases "findMatch ?ps entry")
    case None
    then have no: "\<forall>p \<in> set ?ps. \<not> matches entry p" by (simp add: findMatch_None_iff)
    have "\<not> (\<exists>p \<in> set (client_payments s). cp_user_id p = Some uid \<and> matches entry p)"
      using no by auto
    moreover have "rr_status entry \<noteq> Some ''matched''" using assms(4) by simp
    ultimately show ?thesis using row None by simp
  next
    case (Some p)
    from findMatch_SomeD[OF Some] have p: "p \<in> set (client_payments s)" "cp_user_id p = Some uid"
        "matches entry p"
      by auto
    let ?r = "entry\<lparr>rr_status := Some ''matched'', rr_matched_payment_id := Some (cp_id p)\<rparr>"
    have "recordById ?tbl (rr_id entry) = Some ?r" using row Some by simp
    moreover have "rr_status ?r = Some ''matched''" "rr_matched_payment_id ?r = Some (cp_id p)"
      by simp_all
    ultimately show ?thesis using p by blast
  qed
qed

text \<open>
  When several rows of the user pass the test for an unmatched record, the run selects
  the first of them in the order the payments query returned them; the payments are not
  changed.
\<close>

lemma first_candidate_in_list_order:
  assumes "distinct (map rr_id (reconciliation_records s))" "entry \<in> set (reconciliation_records s)"
      and "rr_uploaded_by entry = Some uid" "rr_status entry = Some ''unmatched''"
      and "candidates = filter (\<lambda>p. cp_user_id p = Some uid \<and> matches entry p) (client_payments s)"
      and "candidates \<noteq> []"
  shows "recordById (reconciliation_records (snd (runReconciliation (Some uid) False False s))) (rr_id entry)
       = Some (entry\<lparr>rr_status := Some ''matched'',
                      rr_matched_payment_id := Some (cp_id (hd candidates))\<rparr>)"
proof -
  let ?ps = "filter (\<lambda>p. cp_user_id p = Some uid) (client_payments s)"
  have c: "candidates = filter (matches entry) ?ps" using assms(5) by simp
  with assms(6) have "filter (matches entry) ?ps \<noteq> []" by simp
  from find_hd_filter[OF this] c have "findMatch ?ps entry = Some (hd candidates)"
    by (simp add: findMatch_find)
  with run_record[OF assms(1-4)] show ?thesis by simp
qed

text \<open>
  A row without the property \<^verbatim>\<open>amount\<close> passes the test for no record: on the rows of
  the table the payments function writes, a run matches nothing and counts every record
  as unmatched.
\<close>

lemma selectRow_never_matches: "\<not> matches r (selectRow p)"
  by (simp add: matches_def selectRow_def strictEquals_def)

lemma findMatch_rows_None:
  assumes "\<forall>p \<in> set ps. cp_amount p = Undefined"
  shows "findMatch ps r = None"
  using assms by (simp add: findMatch_None_iff matches_def strictEquals_def)

lemma matchLoop_no_match:
  assumes "\<forall>r \<in> set rs. findMatch ps r = None"
  shows "matchLoop ps rs tbl m u = (tbl, m, u + length rs)"
  using assms by (induction rs arbitrary: u) simp_all

lemma run_without_amount:
  assumes "\<forall>p \<in> set (client_payments s). cp_amount p = Undefined"
  shows "runReconciliation (Some uid) False False s =
           (Completed \<lparr>total_records =
                         length (filter (\<lambda>r. rr_uploaded_by r = Some uid
                                              \<and> rr_status r = Some ''unmatched'')
                                   (reconciliation_records s)),
                       matched = 0,
                       unmatched =
                         length (filter (\<lambda>r. rr_uploaded_by r = Some uid
                                              \<and> rr_status r = Some ''unmatched'')
                                   (reconciliation_records s))\<rparr>, s)"
proof -
  let ?ps = "filter (\<lambda>p. cp_user_id p = Some uid) (client_payments s)"
  have "\<forall>p \<in> set ?ps. cp_amount p = Undefined" using assms by simp
  then have "\<And>r. findMatch ?ps r = None" by (rule findMatch_rows_None)
  then have "\<And>rs tbl. matchLoop ?ps rs tbl 0 0 = (tbl, 0, length rs)"
    using matchLoop_no_match[of _ ?ps _ 0 0] by simp
  then show ?thesis by (simp add: run_completed Let_def)
qed

lemma paymentRows_amount: "\<forall>p \<in> set (paymentRows s). cp_amount p = Undefined"
  by (simp add: paymentRows_def selectRow_def)

lemma toString10_42: "toString10 42 = ''42''"
  by code_simp

lemma stored_rows:
  "map cp_amount (paymentRows (storeOf (paymentsHandler payEnv payReq emptyDb))) = [Undefined]"
  "map cp_amount_cents (paymentRows (storeOf (paymentsHandler payEnv payReq emptyDb)))
     = [Number 10000]"
  "map cp_external_payment_id (paymentRows (storeOf (paymentsHandler payEnv payReq emptyDb)))
     = [Some ''pay_42_abc123xyz'']"
  "map cp_user_id (paymentRows (storeOf (paymentsHandler payEnv payReq emptyDb))) = [Some ''u1'']"
proof -
  let ?p = "newPayment payEnv ''K1'' body10000 ''p1'' 42"
  have e: "externalPaymentIdOf payEnv = ''pay_42_abc123xyz''"
    by (simp add: externalPaymentIdOf_def payEnv_def toString10_42)
  have f: "p_amount_cents ?p = 10000" "p_external_payment_id ?p = Some ''pay_42_abc123xyz''"
          "p_user_id ?p = Some ''u1''"
    by (simp_all add: newPayment_def e) (simp_all add: body10000_def)
  have g: "map (\<lambda>p. (p_amount_cents p, p_external_payment_id p, p_user_id p))
             (payments (storeOf (paymentsHandler payEnv payReq emptyDb)))
           = [(10000, Some ''pay_42_abc123xyz'', Some ''u1'')]"
    by (simp add: first_call storeOf_def afterGateway_def updateWithGatewayResult_def
        recordTransaction_def emptyDb_tables o_def f)
  have n: "length (payments (storeOf (paymentsHandler payEnv payReq emptyDb))) = 1"
    using arg_cong[OF g, of length] by simp
  then obtain q where q: "payments (storeOf (paymentsHandler payEnv payReq emptyDb)) = [q]"
    by (cases "payments (storeOf (paymentsHandler payEnv payReq emptyDb))") auto
  with g have "p_amount_cents q = 10000" "p_external_payment_id q = Some ''pay_42_abc123xyz''"
      "p_user_id q = Some ''u1''"
    by simp_all
  then show
    "map cp_amount (paymentRows (storeOf (paymentsHandler payEnv payReq emptyDb))) = [Undefined]"
    "map cp_amount_cents (paymentRows (storeOf (paymentsHandler payEnv payReq emptyDb)))
       = [Number 10000]"
    "map cp_external_payment_id (paymentRows (storeOf (paymentsHandler payEnv payReq emptyDb)))
       = [Some ''pay_42_abc123xyz'']"
    "map cp_user_id (paymentRows (storeOf (paymentsHandler payEnv payReq emptyDb))) = [Some ''u1'']"
    by (simp_all add: paymentRows_def q selectRow_def)
qed

text \<open>
  C1. A record is not matched to the payment whose amount and external id it has. The
  payments function stores a payment of 10000 minor units for user \<open>u1\<close> with external id
  \<^verbatim>\<open>pay_42_abc123xyz\<close>; the bank record \<open>recStored\<close> of that user has the same amount and
  that id as external transaction id. The row of the payment has the amount in
  \<^verbatim>\<open>amount_cents\<close> and no property \<^verbatim>\<open>amount\<close>, the loop compares the record's amount with
  \<^verbatim>\<open>undefined\<close>, and the run ends with the record unmatched: one record, none matched,
  the tables as they were.
\<close>

theorem stored_payment_never_matched:
  "map cp_amount_cents (client_payments storedDb) = [Number 10000]
   \<and> map cp_external_payment_id (client_payments storedDb) = [Some ''pay_42_abc123xyz'']
   \<and> map cp_user_id (client_payments storedDb) = [Some ''u1'']
   \<and> map cp_amount (client_payments storedDb) = [Undefined]
   \<and> reconciliation_records storedDb = [recStored]
   \<and> rr_amount recStored = Some 10000
   \<and> rr_external_transaction_id recStored = Some ''pay_42_abc123xyz''
   \<and> rr_uploaded_by recStored = Some ''u1'' \<and> rr_status recStored = Some ''unmatched''
   \<and> runReconciliation (Some ''u1'') False False storedDb
       = (Completed \<lparr>total_records = 1, matched = 0, unmatched = 1\<rparr>, storedDb)"
proof -
  have t: "client_payments storedDb = paymentRows (storeOf (paymentsHandler payEnv payReq emptyDb))"
          "reconciliation_records storedDb = [recStored]"
    by (simp_all add: storedDb_def)
  have r: "rr_amount recStored = Some 10000"
          "rr_external_transaction_id recStored = Some ''pay_42_abc123xyz''"
          "rr_uploaded_by recStored = Some ''u1''" "rr_status recStored = Some ''unmatched''"
    by (simp_all add: recStored_def)
  have "\<forall>p \<in> set (client_payments storedDb). cp_amount p = Undefined"
    unfolding t by (rule paymentRows_amount)
  from run_without_amount[OF this, of "''u1''"]
  have "runReconciliation (Some ''u1'') False False storedDb
       = (Completed \<lparr>total_records = 1, matched = 0, unmatched = 1\<rparr>, storedDb)"
    by (simp add: t(2) r)
  with r t(2) stored_rows show ?thesis by (simp add: t(1))
qed

lemma duplicate_rows:
  "client_payments duplicateDb = [selectRow paidOnce, selectRow paidAgain]"
  "reconciliation_records duplicateDb = [recPay1]"
  by (simp_all add: duplicateDb_def paymentRows_def duplicateStore_def emptyDb_def)

lemma recPay1_fields:
  "rr_id recPay1 = ''r1''" "rr_uploaded_by recPay1 = Some ''u1''"
  "rr_status recPay1 = Some ''unmatched''" "rr_amount recPay1 = Some 10000"
  "rr_external_transaction_id recPay1 = Some ''PAY_1''"
  by (simp_all add: recPay1_def)

lemma duplicate_amount_facts:
  "matches recPay1 payExact" "matches recPay1 payExactLater"
  "cp_user_id payExact = Some ''u1''" "cp_user_id payExactLater = Some ''u1''"
  "cp_id payExact = ''pC''" "cp_id payExactLater = ''pD''"
  "cp_created_at payExact = 3" "cp_created_at payExactLater = 4"
  by (simp_all add: matches_def strictEquals_def recPay1_def payExact_def payExactLater_def)

lemma duplicateAmountDb_tables:
  "reconciliation_records duplicateAmountDb = [recPay1]"
  "client_payments duplicateAmountDb = [payExact, payExactLater]"
  by (simp_all add: duplicateAmountDb_def)

lemma duplicateAmountDb_run:
  "recordById (reconciliation_records
                 (snd (runReconciliation (Some ''u1'') False False duplicateAmountDb))) ''r1''
     = Some (recPay1\<lparr>rr_status := Some ''matched'', rr_matched_payment_id := Some ''pC''\<rparr>)"
proof -
  have "distinct (map rr_id (reconciliation_records duplicateAmountDb))"
       "recPay1 \<in> set (reconciliation_records duplicateAmountDb)"
    by (simp_all add: duplicateAmountDb_tables)
  from first_candidate_in_list_order[OF this recPay1_fields(2,3), of "[payExact, payExactLater]"]
  show ?thesis
    by (simp add: duplicateAmountDb_tables duplicate_amount_facts recPay1_fields(1))
qed

text \<open>
  C9. With two payments that have the record's amount and external id, the run neither
  selects the later one nor marks the other. On the rows of the table the payments
  function writes (\<open>duplicateDb\<close>, payments \<open>pC\<close> created at 3 and \<open>pD\<close> at 4) the record
  stays unmatched, the run counts it as unmatched, and no row is changed. On rows that
  carry the amount as \<^verbatim>\<open>amount\<close> (\<open>duplicateAmountDb\<close>) the record is matched to \<open>pC\<close>, the
  earlier one, which the query returned first, and the payment rows are as they were:
  the loop stops at the first row that passes the test, and nothing in the run writes to
  a payment.
\<close>

theorem duplicates_not_ranked_or_flagged:
  "map cp_id (client_payments duplicateDb) = [''pC'', ''pD'']
   \<and> map cp_created_at (client_payments duplicateDb) = [3, 4]
   \<and> map cp_amount_cents (client_payments duplicateDb) = [Number 10000, Number 10000]
   \<and> map cp_external_payment_id (client_payments duplicateDb) = [Some ''PAY_1'', Some ''PAY_1'']
   \<and> map cp_user_id (client_payments duplicateDb) = [Some ''u1'', Some ''u1'']
   \<and> rr_amount recPay1 = Some 10000 \<and> rr_external_transaction_id recPay1 = Some ''PAY_1''
   \<and> runReconciliation (Some ''u1'') False False duplicateDb
       = (Completed \<lparr>total_records = 1, matched = 0, unmatched = 1\<rparr>, duplicateDb)
   \<and> map cp_id (client_payments duplicateAmountDb) = [''pC'', ''pD'']
   \<and> map cp_created_at (client_payments duplicateAmountDb) = [3, 4]
   \<and> map cp_amount (client_payments duplicateAmountDb) = [Number 10000, Number 10000]
   \<and> map cp_external_payment_id (client_payments duplicateAmountDb)
       = [Some ''PAY_1'', Some ''PAY_1'']
   \<and> recordById (reconciliation_records
                    (snd (runReconciliation (Some ''u1'') False False duplicateAmountDb))) ''r1''
       = Some (recPay1\<lparr>rr_status := Some ''matched'', rr_matched_payment_id := Some ''pC''\<rparr>)
   \<and> client_payments (snd (runReconciliation (Some ''u1'') False False duplicateAmountDb))
       = client_payments duplicateAmountDb"
proof -
  have a: "map cp_id (client_payments duplicateDb) = [''pC'', ''pD'']"
          "map cp_created_at (client_payments duplicateDb) = [3, 4]"
          "map cp_amount_cents (client_payments duplicateDb) = [Number 10000, Number 10000]"
          "map cp_external_payment_id (client_payments duplicateDb)
             = [Some ''PAY_1'', Some ''PAY_1'']"
          "map cp_user_id (client_payments duplicateDb) = [Some ''u1'', Some ''u1'']"
    by (simp_all add: duplicate_rows selectRow_def paidOnce_def paidAgain_def)
  have "\<forall>p \<in> set (client_payments duplicateDb). cp_amount p = Undefined"
    by (simp add: duplicate_rows selectRow_def)
  from run_without_amount[OF this, of "''u1''"]
  have b: "runReconciliation (Some ''u1'') False False duplicateDb
       = (Completed \<lparr>total_records = 1, matched = 0, unmatched = 1\<rparr>, duplicateDb)"
    by (simp add: duplicate_rows(2) recPay1_fields)
  have c: "map cp_id (client_payments duplicateAmountDb) = [''pC'', ''pD'']"
          "map cp_created_at (client_payments duplicateAmountDb) = [3, 4]"
          "map cp_amount (client_payments duplicateAmountDb) = [Number 10000, Number 10000]"
          "map cp_external_payment_id (client_payments duplicateAmountDb)
             = [Some ''PAY_1'', Some ''PAY_1'']"
    by (simp_all add: duplicateAmountDb_tables payExact_def payExactLater_def)
  note d = duplicateAmountDb_run
    run_payments_unchanged[of "Some ''u1''" False False duplicateAmountDb]
  from a recPay1_fields(4,5) b c d show ?thesis by blast
qed

end
